theory Spec2Isabelle
  imports Complex_Main "HOL-Library.AList"
begin

section \<open>Errors, scopes and objects\<close>

text \<open>
  The exception classes the sources raise, together with the classes the specification
  names.  A Python \<^verbatim>\<open>assert\<close> that fails is \<open>AssertionError\<close>, a dictionary
  read of a missing key is \<open>KeyError\<close>, a call whose arguments do not fit the
  signature of the callee is \<open>TypeError\<close>.
\<close>

datatype error =
    AssertionError
  | ValueError
  | KeyError
  | TypeError
  | NotImplementedError
  | StructuralPropertyError
  | ShapeError
  | CyclicGraphError

text \<open>Sequencing of two steps that may raise: the first exception ends the computation.\<close>

definition and_then :: "error + 'a \<Rightarrow> ('a \<Rightarrow> error + 'b) \<Rightarrow> error + 'b" where
  "and_then m f = (case m of Inl e \<Rightarrow> Inl e | Inr x \<Rightarrow> f x)"

text \<open>A scope is a set of variable indices; a scope is truthy when it is not empty.\<close>

type_synonym Scope = "nat set"

text \<open>
  Every layer is an object: \<open>ident\<close> is its identity (two layers with the same
  attributes are still two objects), \<open>ltype\<close> the name of its class (what
  \<^verbatim>\<open>type(sl)\<close> returns).  The layer classes of the two revisions of the sources share
  these attributes.
\<close>

record LayerObject =
  ident :: nat
  ltype :: string
  scope :: Scope
  arity :: int

text \<open>
  A dictionary whose values are lists is an association list in insertion order.  The
  adjacency dictionaries of a circuit are built as \<^verbatim>\<open>defaultdict(list)\<close> at both
  places that construct one (\<^verbatim>\<open>from_region_graph\<close>, \<^verbatim>\<open>integrate\<close>): reading a
  missing key gives the empty list.
\<close>

definition getitem :: "('a \<times> 'b list) list \<Rightarrow> 'a \<Rightarrow> 'b list" where
  "getitem d k = (case map_of d k of None \<Rightarrow> [] | Some xs \<Rightarrow> xs)"

text \<open>
  Reading a missing key of a \<^verbatim>\<open>defaultdict(list)\<close> also stores the key with an empty
  list: \<open>touch d k\<close> is the dictionary a read of \<open>d[k]\<close> leaves behind.
\<close>

definition touch :: "('a \<times> 'b list) list \<Rightarrow> 'a \<Rightarrow> ('a \<times> 'b list) list" where
  "touch d k = (case map_of d k of None \<Rightarrow> d @ [(k, [])] | Some xs \<Rightarrow> d)"

section \<open>The symbolic circuit (symbolic/symb_circuit.py)\<close>

text \<open>
  \<open>base\<close> is the abstract class \<^verbatim>\<open>isinstance\<close> tests against; \<open>operation\<close> holds the
  operator and the identities of the operand layers.
\<close>

datatype LayerBase = SymInputLayer | SymSumLayer | SymProdLayer

datatype SymLayerOperator = NOP | INTEGRATION | DIFFERENTIATION | MULTIPLICATION

record SymLayer = LayerObject +
  base :: LayerBase
  num_units :: int
  operation :: "(SymLayerOperator \<times> nat list) option"

type_synonym adjacency = "(SymLayer \<times> SymLayer list) list"

datatype SymCircuitOperator = C_INTEGRATION | C_DIFFERENTIATION | C_MULTIPLICATION

record SymCircuit =
  sc_scope :: Scope
  layers :: "SymLayer list"
  in_layers :: adjacency
  out_layers :: adjacency
  sc_operation :: "(SymCircuitOperator \<times> Scope) option"

definition layer_inputs :: "SymCircuit \<Rightarrow> SymLayer \<Rightarrow> SymLayer list" where
  "layer_inputs sc sl = getitem (in_layers sc) sl"

definition layer_outputs :: "SymCircuit \<Rightarrow> SymLayer \<Rightarrow> SymLayer list" where
  "layer_outputs sc sl = getitem (out_layers sc) sl"

definition isinstance :: "SymLayer \<Rightarrow> LayerBase \<Rightarrow> bool" where
  "isinstance sl b = (base sl = b)"

subsection \<open>Layer views\<close>

definition input_layers :: "SymCircuit \<Rightarrow> SymLayer list" where
  "input_layers sc = filter (\<lambda>layer. isinstance layer SymInputLayer) (layers sc)"

definition sum_layers :: "SymCircuit \<Rightarrow> SymLayer list" where
  "sum_layers sc = filter (\<lambda>layer. isinstance layer SymSumLayer) (layers sc)"

definition product_layers :: "SymCircuit \<Rightarrow> SymLayer list" where
  "product_layers sc = filter (\<lambda>layer. isinstance layer SymProdLayer) (layers sc)"

definition output_layers :: "SymCircuit \<Rightarrow> SymLayer list" where
  "output_layers sc = filter (\<lambda>layer. getitem (out_layers sc) layer = []) (layers sc)"

definition inner_layers :: "SymCircuit \<Rightarrow> SymLayer list" where
  "inner_layers sc = filter (\<lambda>layer. getitem (in_layers sc) layer \<noteq> []) (layers sc)"

subsection \<open>Structural properties\<close>

text \<open>\<^verbatim>\<open>itertools.combinations(xs, 2)\<close>: the pairs of positions \<open>i < j\<close>, in order.\<close>

fun combinations2 :: "'a list \<Rightarrow> ('a \<times> 'a) list" where
  "combinations2 [] = []"
| "combinations2 (x # xs) = map (Pair x) xs @ combinations2 xs"

text \<open>
  \<^verbatim>\<open>all(sum_sl.scope == in_sl.scope for sum_sl in self.sum_layers
          for in_sl in self._in_layers[sum_sl])\<close>
\<close>

definition is_smooth :: "SymCircuit \<Rightarrow> bool" where
  "is_smooth sc =
     list_all (\<lambda>(sum_sl, in_sl). scope sum_sl = scope in_sl)
       (concat (map (\<lambda>sum_sl. map (Pair sum_sl) (getitem (in_layers sc) sum_sl))
                    (sum_layers sc)))"

text \<open>
  \<^verbatim>\<open>not any(lhs_in_sl.scope & lhs_in_sl.scope for prod_sl in self.product_layers
              for lhs_in_sl, rhs_in_sl in itertools.combinations(self._in_layers[prod_sl], 2))\<close>
  The source intersects the scope of the left layer with itself.
\<close>

definition is_decomposable :: "SymCircuit \<Rightarrow> bool" where
  "is_decomposable sc =
     (\<not> list_ex (\<lambda>(lhs_in_sl, rhs_in_sl). scope lhs_in_sl \<inter> scope lhs_in_sl \<noteq> {})
          (concat (map (\<lambda>prod_sl. combinations2 (getitem (in_layers sc) prod_sl))
                       (product_layers sc))))"

text \<open>The body after the two guards is a \<^verbatim>\<open>TODO\<close> that returns \<^verbatim>\<open>False\<close>.\<close>

definition is_compatible :: "SymCircuit \<Rightarrow> SymCircuit \<Rightarrow> Scope option \<Rightarrow> bool" where
  "is_compatible sc oth scp =
     (if \<not> is_smooth sc then False
      else if \<not> is_decomposable sc then False
      else False)"

definition is_structured_decomposable :: "SymCircuit \<Rightarrow> bool" where
  "is_structured_decomposable sc = is_compatible sc sc None"

text \<open>
  What the specification calls decomposable: in every product layer, the direct inputs
  have pairwise disjoint scopes.
\<close>

definition pairwise_disjoint_inputs :: "SymCircuit \<Rightarrow> bool" where
  "pairwise_disjoint_inputs sc =
     list_all (\<lambda>prod_sl.
         list_all (\<lambda>(lhs_in_sl, rhs_in_sl). scope lhs_in_sl \<inter> scope rhs_in_sl = {})
           (combinations2 (getitem (in_layers sc) prod_sl)))
       (product_layers sc)"

subsection \<open>Topological ordering\<close>

text \<open>
  Modelled from the spec: \<^verbatim>\<open>topological_ordering\<close> of \<^verbatim>\<open>cirkit.utils.algorithms\<close>
  is not among the sources.  The specification asks for an order computed from the output
  layers backward through the adjacency, by a search that fails when no valid order
  exists.  The model is a depth-first search: \<open>path\<close> holds the nodes being visited (a
  node met again on the path closes a cycle, and the search returns \<open>None\<close>), \<open>acc\<close>
  the nodes already ordered, each after all of its incoming nodes.  The source passes the
  adjacency as a function reading a dictionary; the model takes the dictionary.
\<close>

text \<open>
  The search ends because the dictionary has finitely many keys: each visit either
  puts a key on the path or reaches a node with no incoming nodes.
\<close>

lemma getitem_not_key: "n \<notin> fst ` set g \<Longrightarrow> getitem g n = []"
  by (simp add: getitem_def map_of_eq_None_iff [THEN iffD2])

lemma card_keys_less:
  assumes "n \<in> fst ` set g" "n \<notin> set path"
  shows "card (fst ` set g - set (n # path)) < card (fst ` set g - set path)"
proof -
  have "fst ` set g - set (n # path) \<subset> fst ` set g - set path"
    using assms by auto
  then show ?thesis
    by (intro psubset_card_mono) auto
qed

function topo_visit ::
    "('a \<times> 'a list) list \<Rightarrow> 'a list \<Rightarrow> 'a \<Rightarrow> 'a list \<Rightarrow> 'a list option"
  and topo_visit_all ::
    "('a \<times> 'a list) list \<Rightarrow> 'a list \<Rightarrow> 'a list \<Rightarrow> 'a list \<Rightarrow> 'a list option"
where
  "topo_visit g path n acc =
     (if n \<in> set path then None
      else if n \<in> set acc then Some acc
      else
        (case topo_visit_all g (n # path) (getitem g n) acc of
           None \<Rightarrow> None
         | Some acc' \<Rightarrow> Some (acc' @ [n])))"
| "topo_visit_all g path [] acc = Some acc"
| "topo_visit_all g path (n # ns) acc =
     (case topo_visit g path n acc of
        None \<Rightarrow> None
      | Some acc' \<Rightarrow> topo_visit_all g path ns acc')"
  by pat_completeness auto

termination
proof (relation "measures
    [\<lambda>x. case x of Inl (g, path, n, acc) \<Rightarrow> card (fst ` set g - set path)
                 | Inr (g, path, ns, acc) \<Rightarrow> card (fst ` set g - set path),
     \<lambda>x. case x of Inl (g, path, n, acc) \<Rightarrow> 1
                 | Inr (g, path, ns, acc) \<Rightarrow> 2 * length ns]", goal_cases)
  case 1
  then show ?case by simp
next
  case (2 g path n acc)
  show ?case
  proof (cases "n \<in> fst ` set g")
    case True
    with 2 card_keys_less [of n g path] show ?thesis by simp
  next
    case False
    then have "fst ` set g - set (n # path) = fst ` set g - set path" by auto
    with False show ?thesis by (simp add: getitem_not_key)
  qed
next
  case 3
  then show ?case by simp
next
  case 4
  then show ?case by simp
qed

definition topological_ordering :: "'a list \<Rightarrow> ('a \<times> 'a list) list \<Rightarrow> 'a list option" where
  "topological_ordering roots g = topo_visit_all g [] roots []"

text \<open>
  \<^verbatim>\<open>layers_topological_ordering\<close>.  The roots are \<^verbatim>\<open>set(self.output_layers)\<close>.
  Python iterates a set in the order of the hashes of its elements, which for layer
  objects are their addresses: \<open>set_iter xs\<close> is the order in which the set built from
  the list \<open>xs\<close> is iterated, a parameter of the model.  A missing order raises
  \<^verbatim>\<open>ValueError\<close>.
\<close>

definition layers_topological_ordering ::
  "(SymLayer list \<Rightarrow> SymLayer list) \<Rightarrow> SymCircuit \<Rightarrow> error + SymLayer list" where
  "layers_topological_ordering set_iter sc =
     (case topological_ordering (set_iter (output_layers sc)) (in_layers sc) of
        None \<Rightarrow> Inl ValueError
      | Some acc \<Rightarrow> Inr acc)"

text \<open>
  A call reads \<^verbatim>\<open>self._out_layers[layer]\<close> and \<^verbatim>\<open>self._in_layers[sl]\<close>, and each
  read of a missing key stores it: \<open>after_reads sc ks_in ks_out\<close> is the circuit after
  reads of the keys \<open>ks_in\<close> of \<open>in_layers\<close> and \<open>ks_out\<close> of \<open>out_layers\<close>, in
  that order.  This is all a call changes of the circuit.
\<close>

definition after_reads :: "SymCircuit \<Rightarrow> SymLayer list \<Rightarrow> SymLayer list \<Rightarrow> SymCircuit" where
  "after_reads sc ks_in ks_out =
     sc\<lparr>in_layers := foldl touch (in_layers sc) ks_in,
        out_layers := foldl touch (out_layers sc) ks_out\<rparr>"

text \<open>
  The edges of an adjacency dictionary, and what it means for a list to be in
  topological order: no repetitions, and every node after all of its incoming nodes.
\<close>

definition edges :: "('a \<times> 'a list) list \<Rightarrow> ('a \<times> 'a) set" where
  "edges g = {(a, b). b \<in> set (getitem g a)}"

definition topo_sorted :: "('a \<times> 'a list) list \<Rightarrow> 'a list \<Rightarrow> bool" where
  "topo_sorted g acc \<longleftrightarrow>
     distinct acc \<and> (\<forall>i<length acc. set (getitem g (acc ! i)) \<subseteq> set (take i acc))"

section \<open>Integration and multiplication of circuits (symbolic/functional.py)\<close>

text \<open>
  The operator registry is not among the sources; it is a parameter with the two
  operations \<^verbatim>\<open>integrate\<close> calls.  A rule builds a new layer object, so it takes the
  identity of the object it creates.
\<close>

record SymOperatorRegistry =
  has_rule :: "SymLayerOperator \<Rightarrow> string \<Rightarrow> bool"
  retrieve_rule :: "SymLayerOperator \<Rightarrow> string \<Rightarrow> nat \<Rightarrow> SymLayer \<Rightarrow> SymLayer"

text \<open>
  The local variables of the loop of \<^verbatim>\<open>integrate\<close>: the three dictionaries, and the
  identity the next new object receives.
\<close>

record integrate_state =
  map_layers :: "(SymLayer \<times> SymLayer) list"
  new_in_layers :: adjacency
  new_out_layers :: adjacency
  next_ident :: nat

text \<open>
  One pass of \<^verbatim>\<open>for sl in sc.layers\<close>.  An input layer that meets the integration
  scope is rewritten by the registry's rule (\<^verbatim>\<open>NotImplementedError\<close> when it is not
  inside the scope).  Every other layer takes the \<^verbatim>\<open>else\<close> branch, which asserts that
  the layer is a sum or a product layer, reads \<^verbatim>\<open>map_layers[isl]\<close> for each input
  (\<^verbatim>\<open>KeyError\<close> for a layer not rewritten yet), and copies the layer;
  \<^verbatim>\<open>out_layers[isl] = new_sl_inputs\<close> is the assignment the source makes.
\<close>

fun integrate_layers ::
  "SymOperatorRegistry \<Rightarrow> SymCircuit \<Rightarrow> Scope \<Rightarrow> SymLayer list \<Rightarrow> integrate_state
     \<Rightarrow> error + integrate_state" where
  "integrate_layers registry sc scp [] st = Inr st"
| "integrate_layers registry sc scp (sl # sls) st =
     (if isinstance sl SymInputLayer \<and> scope sl \<inter> scp \<noteq> {} then
        (if \<not> (scope sl \<subseteq> scp) then Inl NotImplementedError
         else
           let func = (if has_rule registry INTEGRATION (ltype sl)
                       then retrieve_rule registry INTEGRATION (ltype sl)
                       else retrieve_rule registry INTEGRATION ''SymInputLayer'')
           in integrate_layers registry sc scp sls
                (st\<lparr>map_layers := AList.update sl (func (next_ident st) sl) (map_layers st),
                    next_ident := Suc (next_ident st)\<rparr>))
      else if \<not> (isinstance sl SymSumLayer \<or> isinstance sl SymProdLayer)
        then Inl AssertionError
      else
        (case those (map (map_of (map_layers st)) (layer_inputs sc sl)) of
           None \<Rightarrow> Inl KeyError
         | Some new_sl_inputs \<Rightarrow>
             let new_sl = \<lparr>ident = next_ident st, ltype = ltype sl, scope = scope sl,
                           arity = arity sl, base = base sl, num_units = num_units sl,
                           operation = Some (NOP, [ident sl])\<rparr>
             in integrate_layers registry sc scp sls
                  (st\<lparr>map_layers := AList.update sl new_sl (map_layers st),
                      new_in_layers := AList.update new_sl new_sl_inputs (new_in_layers st),
                      new_out_layers :=
                        fold (\<lambda>isl d. AList.update isl new_sl_inputs d) new_sl_inputs
                          (new_out_layers st),
                      next_ident := Suc (next_ident st)\<rparr>)))"

text \<open>
  \<^verbatim>\<open>integrate(sc, scope, registry)\<close>; \<open>oid\<close> is the first free object identity.  The
  structural properties are those of the circuit class above.  The new circuit is built
  with \<^verbatim>\<open>sc.scope\<close> and \<^verbatim>\<open>list(map_layers.values())\<close>.
\<close>

definition integrate ::
  "SymOperatorRegistry \<Rightarrow> nat \<Rightarrow> SymCircuit \<Rightarrow> Scope option \<Rightarrow> error + SymCircuit" where
  "integrate registry oid sc scope_arg =
     (if \<not> is_smooth sc \<or> \<not> is_decomposable sc then Inl StructuralPropertyError
      else
        let scp = (case scope_arg of None \<Rightarrow> sc_scope sc | Some s \<Rightarrow> s) in
        if scp \<union> sc_scope sc \<noteq> sc_scope sc then Inl ValueError
        else
          (case integrate_layers registry sc scp (layers sc)
                  \<lparr>map_layers = [], new_in_layers = [], new_out_layers = [],
                   next_ident = oid\<rparr> of
             Inl e \<Rightarrow> Inl e
           | Inr st \<Rightarrow>
               Inr \<lparr>sc_scope = sc_scope sc, layers = map snd (map_layers st),
                    in_layers = new_in_layers st, out_layers = new_out_layers st,
                    sc_operation = Some (C_INTEGRATION, scp)\<rparr>))"

text \<open>
  \<^verbatim>\<open>multiply(lhs_sc, rhs_sc)\<close>: after the compatibility guard the body is
  \<^verbatim>\<open>...\<close>, so the function returns \<^verbatim>\<open>None\<close>.
\<close>

definition multiply :: "SymCircuit \<Rightarrow> SymCircuit \<Rightarrow> error + SymCircuit option" where
  "multiply lhs_sc rhs_sc =
     (if \<not> is_compatible lhs_sc rhs_sc None then Inl StructuralPropertyError
      else Inr None)"

text \<open>
  What the claims call the scope conditions of \<^verbatim>\<open>integrate\<close>: no input layer meets the
  integration scope without lying inside it.
\<close>

definition no_partial_overlap :: "SymCircuit \<Rightarrow> Scope \<Rightarrow> bool" where
  "no_partial_overlap sc scp =
     list_all (\<lambda>sl. scope sl \<inter> scp = {} \<or> scope sl \<subseteq> scp) (input_layers sc)"

section \<open>Parameter expressions (symbolic/params.py)\<close>

text \<open>
  A node of the parameter expression graph.  \<open>Parameter\<close> and \<open>ConstantParameter\<close> are
  the leaves of \<^verbatim>\<open>params.py\<close>; \<open>TensorParameter\<close> is the leaf \<^verbatim>\<open>layers.py\<close> creates
  by default, with its initializer; \<open>Placeholder\<close> refers to the parameter \<open>name\<close> of the
  layer with the given identity.  The operator nodes hold their operands and, where the
  class has one, the axis after normalisation.
\<close>

datatype Initializer = NormalInitializer

datatype ReduceKind = ReduceSum | ReduceProduct | ReduceLSE

datatype AbstractParameter =
    Parameter "int list"
  | ConstantParameter "int list" real
  | TensorParameter "int list" Initializer
  | Placeholder nat string "int list"
  | Hadamard AbstractParameter AbstractParameter
  | Kronecker AbstractParameter AbstractParameter
  | OuterProduct AbstractParameter AbstractParameter nat
  | OuterSum AbstractParameter AbstractParameter nat
  | Reduce ReduceKind AbstractParameter nat

text \<open>
  The \<^verbatim>\<open>shape\<close> property of each class.  The assertions of the constructors below keep
  every index the property reads in range.
\<close>

fun shape :: "AbstractParameter \<Rightarrow> int list" where
  "shape (Parameter s) = s"
| "shape (ConstantParameter s v) = s"
| "shape (TensorParameter s init) = s"
| "shape (Placeholder owner name s) = s"
| "shape (Hadamard opd1 opd2) = shape opd1"
| "shape (Kronecker opd1 opd2) =
     map (\<lambda>i. shape opd1 ! i * shape opd2 ! i) [0..<length (shape opd1)]"
| "shape (OuterProduct p1 p2 axis) =
     take axis (shape p1) @ [shape p1 ! axis * shape p2 ! axis] @ drop (axis + 1) (shape p1)"
| "shape (OuterSum p1 p2 axis) =
     take axis (shape p1) @ [shape p1 ! axis * shape p2 ! axis] @ drop (axis + 1) (shape p1)"
| "shape (Reduce k opd axis) = take axis (shape opd) @ drop (axis + 1) (shape opd)"

text \<open>\<^verbatim>\<open>axis = axis if axis >= 0 else axis + len(opd.shape)\<close>\<close>

definition normalize_axis :: "int \<Rightarrow> nat \<Rightarrow> int" where
  "normalize_axis axis n = (if axis \<ge> 0 then axis else axis + int n)"

text \<open>The constructors: each \<^verbatim>\<open>assert\<close> of \<^verbatim>\<open>__init__\<close> is a guard.\<close>

definition HadamardParameter ::
  "AbstractParameter \<Rightarrow> AbstractParameter \<Rightarrow> error + AbstractParameter" where
  "HadamardParameter opd1 opd2 =
     (if shape opd1 \<noteq> shape opd2 then Inl AssertionError else Inr (Hadamard opd1 opd2))"

definition KroneckerParameter ::
  "AbstractParameter \<Rightarrow> AbstractParameter \<Rightarrow> error + AbstractParameter" where
  "KroneckerParameter opd1 opd2 =
     (if length (shape opd1) \<noteq> length (shape opd2) then Inl AssertionError
      else Inr (Kronecker opd1 opd2))"

definition OuterProductParameter ::
  "AbstractParameter \<Rightarrow> AbstractParameter \<Rightarrow> int \<Rightarrow> error + AbstractParameter" where
  "OuterProductParameter opd1 opd2 axis =
     (if length (shape opd1) \<noteq> length (shape opd2) then Inl AssertionError
      else
        let axis = normalize_axis axis (length (shape opd1)) in
        if \<not> (0 \<le> axis \<and> axis < int (length (shape opd1))) then Inl AssertionError
        else if take (nat axis) (shape opd1) \<noteq> take (nat axis) (shape opd2)
          then Inl AssertionError
        else if drop (nat axis + 1) (shape opd1) \<noteq> drop (nat axis + 1) (shape opd2)
          then Inl AssertionError
        else Inr (OuterProduct opd1 opd2 (nat axis)))"

definition OuterSumParameter ::
  "AbstractParameter \<Rightarrow> AbstractParameter \<Rightarrow> int \<Rightarrow> error + AbstractParameter" where
  "OuterSumParameter opd1 opd2 axis =
     (if length (shape opd1) \<noteq> length (shape opd2) then Inl AssertionError
      else
        let axis = normalize_axis axis (length (shape opd1)) in
        if \<not> (0 \<le> axis \<and> axis < int (length (shape opd1))) then Inl AssertionError
        else Inr (OuterSum opd1 opd2 (nat axis)))"

definition ReduceOpParameter ::
  "ReduceKind \<Rightarrow> AbstractParameter \<Rightarrow> int \<Rightarrow> error + AbstractParameter" where
  "ReduceOpParameter k opd axis =
     (let axis = normalize_axis axis (length (shape opd)) in
      if \<not> (0 \<le> axis \<and> axis < int (length (shape opd))) then Inl AssertionError
      else Inr (Reduce k opd (nat axis)))"

definition ReduceSumParameter :: "AbstractParameter \<Rightarrow> int \<Rightarrow> error + AbstractParameter" where
  "ReduceSumParameter = ReduceOpParameter ReduceSum"

definition ReduceProductParameter :: "AbstractParameter \<Rightarrow> int \<Rightarrow> error + AbstractParameter" where
  "ReduceProductParameter = ReduceOpParameter ReduceProduct"

definition ReduceLSEParameter :: "AbstractParameter \<Rightarrow> int \<Rightarrow> error + AbstractParameter" where
  "ReduceLSEParameter = ReduceOpParameter ReduceLSE"

text \<open>
  The words of the shape table: an axis is valid when, after normalisation, it is a
  position of the shape; two shapes are equal except at a position.
\<close>

definition valid_axis :: "int \<Rightarrow> nat \<Rightarrow> bool" where
  "valid_axis axis n = (0 \<le> normalize_axis axis n \<and> normalize_axis axis n < int n)"

definition the_axis :: "int \<Rightarrow> nat \<Rightarrow> nat" where
  "the_axis axis n = nat (normalize_axis axis n)"

definition equal_except :: "nat \<Rightarrow> int list \<Rightarrow> int list \<Rightarrow> bool" where
  "equal_except ax s1 s2 =
     (length s1 = length s2 \<and> list_all (\<lambda>i. i = ax \<or> s1 ! i = s2 ! i) [0..<length s1])"

section \<open>Symbolic layers (symbolic/layers.py)\<close>

text \<open>
  A layer of \<^verbatim>\<open>layers.py\<close>, with the attributes of \<^verbatim>\<open>Layer.__init__\<close> and the
  attributes its subclasses add; an attribute a class does not have is \<open>None\<close>.  A
  constructor takes the identity \<open>oid\<close> of the object it creates.
\<close>

record Layer = LayerObject +
  num_input_units :: int
  num_output_units :: int
  num_categories :: "int option"
  logits :: "AbstractParameter option"
  probs :: "AbstractParameter option"
  partition :: "AbstractParameter option"
  weight :: "AbstractParameter option"

type_synonym ParameterFactory = "int list \<Rightarrow> AbstractParameter"

definition Layer_init :: "nat \<Rightarrow> string \<Rightarrow> Scope \<Rightarrow> int \<Rightarrow> int \<Rightarrow> int \<Rightarrow> Layer" where
  "Layer_init oid t scp n_in n_out ar =
     \<lparr>ident = oid, ltype = t, scope = scp, arity = ar, num_input_units = n_in,
      num_output_units = n_out, num_categories = None, logits = None, probs = None,
      partition = None, weight = None\<rparr>"

text \<open>\<^verbatim>\<open>super().__init__(scope, len(scope), num_output_units, num_channels)\<close>\<close>

definition InputLayer_init :: "nat \<Rightarrow> string \<Rightarrow> Scope \<Rightarrow> int \<Rightarrow> int \<Rightarrow> Layer" where
  "InputLayer_init oid t scp n_out n_channels =
     Layer_init oid t scp (int (card scp)) n_out n_channels"

definition num_channels :: "Layer \<Rightarrow> int" where
  "num_channels self = arity self"

text \<open>
  \<^verbatim>\<open>Parameter.from_leaf\<close> (of a module that is not among the sources) wraps one
  tensor node; the parameter has the shape of the node.
\<close>

definition from_leaf :: "AbstractParameter \<Rightarrow> AbstractParameter" where
  "from_leaf p = p"

definition probs_logits_shape :: "Layer \<Rightarrow> int list" where
  "probs_logits_shape self =
     [num_output_units self, num_channels self, the (num_categories self)]"

text \<open>
  \<^verbatim>\<open>CategoricalLayer.__init__\<close>: the four guards, the default of \<^verbatim>\<open>logits\<close> and
  \<^verbatim>\<open>probs\<close> when neither is given, and the two shape checks.
\<close>

definition CategoricalLayer ::
  "nat \<Rightarrow> Scope \<Rightarrow> int \<Rightarrow> int \<Rightarrow> int \<Rightarrow> AbstractParameter option \<Rightarrow> AbstractParameter option
     \<Rightarrow> ParameterFactory option \<Rightarrow> ParameterFactory option \<Rightarrow> error + Layer" where
  "CategoricalLayer oid scp n_out n_channels n_categories logits_arg probs_arg
       logits_factory probs_factory =
     (if card scp \<noteq> 1 then Inl ValueError
      else if logits_arg \<noteq> None \<and> probs_arg \<noteq> None then Inl ValueError
      else if (case logits_factory of None \<Rightarrow> False | Some f \<Rightarrow> True) \<and>
              (case probs_factory of None \<Rightarrow> False | Some f \<Rightarrow> True) then Inl ValueError
      else if n_categories < 2 then Inl ValueError
      else
        let self = (InputLayer_init oid ''CategoricalLayer'' scp n_out n_channels)
                     \<lparr>num_categories := Some n_categories\<rparr>;
            (lg, pr) =
              (if logits_arg = None \<and> probs_arg = None then
                 (case logits_factory of
                    Some f \<Rightarrow> (Some (f (probs_logits_shape self)), probs_arg)
                  | None \<Rightarrow>
                      (case probs_factory of
                         Some f \<Rightarrow> (logits_arg, Some (f (probs_logits_shape self)))
                       | None \<Rightarrow>
                           (Some (from_leaf
                              (TensorParameter (probs_logits_shape self) NormalInitializer)),
                            probs_arg)))
               else (logits_arg, probs_arg))
        in
          if (case lg of None \<Rightarrow> False | Some p \<Rightarrow> shape p \<noteq> probs_logits_shape self)
            then Inl ValueError
          else if (case pr of None \<Rightarrow> False | Some p \<Rightarrow> shape p \<noteq> probs_logits_shape self)
            then Inl ValueError
          else Inr (self\<lparr>probs := pr, logits := lg\<rparr>))"

text \<open>The \<^verbatim>\<open>params\<close> property of \<^verbatim>\<open>CategoricalLayer\<close>: a dictionary with one key.\<close>

definition CategoricalLayer_params :: "Layer \<Rightarrow> (string \<times> AbstractParameter option) list" where
  "CategoricalLayer_params self =
     (if logits self = None then [(''probs'', probs self)] else [(''logits'', logits self)])"

definition HadamardLayer :: "nat \<Rightarrow> Scope \<Rightarrow> int \<Rightarrow> int \<Rightarrow> error + Layer" where
  "HadamardLayer oid scp n_in ar =
     (if ar < 2 then Inl ValueError
      else Inr (Layer_init oid ''HadamardLayer'' scp n_in n_in ar))"

text \<open>The default of \<^verbatim>\<open>weight\<close> in \<^verbatim>\<open>DenseLayer\<close> and \<^verbatim>\<open>MixingLayer\<close>.\<close>

definition weight_or_default ::
  "AbstractParameter option \<Rightarrow> ParameterFactory option \<Rightarrow> int list \<Rightarrow> AbstractParameter" where
  "weight_or_default weight_arg weight_factory weight_shape =
     (case weight_arg of
        Some w \<Rightarrow> w
      | None \<Rightarrow>
          (case weight_factory of
             None \<Rightarrow> from_leaf (TensorParameter weight_shape NormalInitializer)
           | Some f \<Rightarrow> f weight_shape))"

definition DenseLayer ::
  "nat \<Rightarrow> Scope \<Rightarrow> int \<Rightarrow> int \<Rightarrow> AbstractParameter option \<Rightarrow> ParameterFactory option
     \<Rightarrow> error + Layer" where
  "DenseLayer oid scp n_in n_out weight_arg weight_factory =
     (let self = Layer_init oid ''DenseLayer'' scp n_in n_out 1;
          weight_shape = [num_output_units self, num_input_units self];
          w = weight_or_default weight_arg weight_factory weight_shape
      in if shape w \<noteq> weight_shape then Inl ValueError
         else Inr (self\<lparr>weight := Some w\<rparr>))"

definition MixingLayer ::
  "nat \<Rightarrow> Scope \<Rightarrow> int \<Rightarrow> int \<Rightarrow> AbstractParameter option \<Rightarrow> ParameterFactory option
     \<Rightarrow> error + Layer" where
  "MixingLayer oid scp n_units ar weight_arg weight_factory =
     (let self = Layer_init oid ''MixingLayer'' scp n_units n_units ar;
          weight_shape = [num_input_units self, arity self];
          w = weight_or_default weight_arg weight_factory weight_shape
      in if shape w \<noteq> weight_shape then Inl ValueError
         else Inr (self\<lparr>weight := Some w\<rparr>))"

section \<open>Multiplication rules (symbolic/operators.py)\<close>

text \<open>
  Modelled from the spec: \<^verbatim>\<open>PlaceholderParameter\<close> is not among the sources.  The
  specification describes a node that refers to a named parameter of another layer and
  owns no storage; the model reads the shape of the parameter it names, and a layer
  without that parameter raises \<open>KeyError\<close>.
\<close>

definition getattr :: "Layer \<Rightarrow> string \<Rightarrow> AbstractParameter option" where
  "getattr self name =
     (if name = ''logits'' then logits self
      else if name = ''probs'' then probs self
      else if name = ''partition'' then partition self
      else if name = ''weight'' then weight self
      else None)"

definition PlaceholderParameter :: "Layer \<Rightarrow> string \<Rightarrow> error + AbstractParameter" where
  "PlaceholderParameter sl name =
     (case getattr sl name of
        None \<Rightarrow> Inl KeyError
      | Some p \<Rightarrow> Inr (Placeholder (ident sl) name (shape p)))"

text \<open>
  The calls of \<^verbatim>\<open>multiply_categorical_layers\<close>, against the signatures of the classes
  among the sources.  A call that passes a keyword the signature does not have, or that
  leaves out a parameter without a default, raises \<open>TypeError\<close> before the body of
  the constructor runs.  \<^verbatim>\<open>KroneckerParameter.__init__(self, opd1, opd2)\<close> takes no
  keyword: \<open>extra\<close> holds the keywords of the call beyond the two operands.
  \<^verbatim>\<open>CategoricalLayer.__init__\<close> has no default for \<^verbatim>\<open>num_channels\<close> and
  \<^verbatim>\<open>num_categories\<close>: \<open>None\<close> says that the call does not pass the argument, and
  \<open>extra\<close> holds the keywords of the call that the signature does not have.
\<close>

definition call_KroneckerParameter ::
  "AbstractParameter \<Rightarrow> AbstractParameter \<Rightarrow> string list \<Rightarrow> error + AbstractParameter" where
  "call_KroneckerParameter opd1 opd2 extra =
     (if extra \<noteq> [] then Inl TypeError else KroneckerParameter opd1 opd2)"

definition call_CategoricalLayer ::
  "nat \<Rightarrow> Scope \<Rightarrow> int \<Rightarrow> int option \<Rightarrow> int option \<Rightarrow> AbstractParameter option
     \<Rightarrow> AbstractParameter option \<Rightarrow> ParameterFactory option \<Rightarrow> ParameterFactory option
     \<Rightarrow> string list \<Rightarrow> error + Layer" where
  "call_CategoricalLayer oid scp n_out n_channels n_categories logits_arg probs_arg
       logits_factory probs_factory extra =
     (case (n_channels, n_categories) of
        (Some c, Some k) \<Rightarrow>
          if extra \<noteq> [] then Inl TypeError
          else CategoricalLayer oid scp n_out c k logits_arg probs_arg
                 logits_factory probs_factory
      | _ \<Rightarrow> Inl TypeError)"

text \<open>
  \<^verbatim>\<open>multiply_categorical_layers\<close>, statement by statement: the assertion on the
  channels; \<^verbatim>\<open>KroneckerParameter(PlaceholderParameter(lhs, name="probs"),
  PlaceholderParameter(rhs, name="probs"), axis=2)\<close>; and the call of
  \<^verbatim>\<open>CategoricalLayer\<close> with the scope, \<^verbatim>\<open>lhs.num_output_units * rhs.num_input_units\<close>,
  \<^verbatim>\<open>num_channels\<close>, \<^verbatim>\<open>probs\<close> and \<^verbatim>\<open>partition=ReduceSumParameter(sl_probs, axis=3)\<close>,
  whose arguments are evaluated before the call.
\<close>

definition multiply_categorical_layers :: "nat \<Rightarrow> Layer \<Rightarrow> Layer \<Rightarrow> error + Layer" where
  "multiply_categorical_layers oid lhs rhs =
     (if num_channels lhs \<noteq> num_channels rhs then Inl AssertionError
      else
        and_then (PlaceholderParameter lhs ''probs'') (\<lambda>p1.
        and_then (PlaceholderParameter rhs ''probs'') (\<lambda>p2.
        and_then (call_KroneckerParameter p1 p2 [''axis'']) (\<lambda>sl_probs.
        and_then (ReduceSumParameter sl_probs 3) (\<lambda>partition_arg.
          call_CategoricalLayer oid (scope lhs \<union> scope rhs)
            (num_output_units lhs * num_input_units rhs) (Some (num_channels lhs)) None
            None (Some sl_probs) None None [''partition''])))))"

definition multiply_hadamard_layers :: "nat \<Rightarrow> Layer \<Rightarrow> Layer \<Rightarrow> error + Layer" where
  "multiply_hadamard_layers oid lhs rhs =
     HadamardLayer oid (scope lhs \<union> scope rhs) (num_input_units lhs * num_input_units rhs)
       (max (arity lhs) (arity rhs))"

definition multiply_dense_layers :: "nat \<Rightarrow> Layer \<Rightarrow> Layer \<Rightarrow> error + Layer" where
  "multiply_dense_layers oid lhs rhs =
     and_then (PlaceholderParameter lhs ''weight'') (\<lambda>p1.
     and_then (PlaceholderParameter rhs ''weight'') (\<lambda>p2.
     and_then (KroneckerParameter p1 p2) (\<lambda>w.
       DenseLayer oid (scope lhs \<union> scope rhs) (num_input_units lhs * num_input_units rhs)
         (num_output_units lhs * num_output_units rhs) (Some w) None)))"

definition multiply_mixing_layers :: "nat \<Rightarrow> Layer \<Rightarrow> Layer \<Rightarrow> error + Layer" where
  "multiply_mixing_layers oid lhs rhs =
     and_then (PlaceholderParameter lhs ''weight'') (\<lambda>p1.
     and_then (PlaceholderParameter rhs ''weight'') (\<lambda>p2.
     and_then (KroneckerParameter p1 p2) (\<lambda>w.
       MixingLayer oid (scope lhs \<union> scope rhs) (num_input_units lhs * num_input_units rhs)
         (arity lhs * arity rhs) (Some w) None)))"

section \<open>Compilation of leaf parameters (backend/torch/rules/parameters.py)\<close>

text \<open>
  The symbolic leaves as the compilation rules read them: the attributes
  \<^verbatim>\<open>shape\<close>, \<^verbatim>\<open>initializer\<close>, \<^verbatim>\<open>learnable\<close> and \<^verbatim>\<open>dtype\<close> of a tensor parameter,
  \<^verbatim>\<open>shape\<close> and \<^verbatim>\<open>initializer\<close> of a constant parameter, and the identity of the
  object.  The compiler state is keyed by the symbolic object, of either class.
\<close>

datatype DataType = INTEGER | REAL | COMPLEX

record tensor_parameter =
  tp_ident :: nat
  tp_shape :: "int list"
  tp_initializer :: Initializer
  tp_learnable :: bool
  tp_dtype :: DataType

record constant_parameter =
  cp_ident :: nat
  cp_shape :: "int list"
  cp_initializer :: Initializer

datatype symbolic_leaf = TensorP tensor_parameter | ConstantP constant_parameter

text \<open>
  The compiled nodes.  A \<^verbatim>\<open>TorchTensorParameter\<close> is a materialization: an object
  with storage of its own, \<open>t_ident\<close> being its identity.  A
  \<^verbatim>\<open>TorchPointerParameter\<close> holds a reference to a materialization and a fold index.
  \<open>'d\<close> is the type of torch's data types and \<open>'f\<close> the type of compiled initializers.
\<close>

record ('d, 'f) TorchTensorParameter =
  t_ident :: nat
  t_shape :: "int list"
  requires_grad :: bool
  initializer_ :: 'f
  t_dtype :: "'d option"

datatype ('d, 'f) torch_parameter =
    TensorNode "('d, 'f) TorchTensorParameter"
  | TorchPointerParameter "('d, 'f) TorchTensorParameter" nat

text \<open>
  Modelled from the spec: the compiler state class is not among the sources.  The
  specification describes a cache keyed by the identity of the symbolic parameter, from
  the parameter to the pair of its compiled parameter and a fold index, with the three
  operations below.  The fold index a registration stores is not given; it is the
  argument \<open>fold_idx\<close>.
\<close>

type_synonym ('d, 'f) TorchCompilerState =
  "(symbolic_leaf \<times> ('d, 'f) TorchTensorParameter \<times> nat) list"

definition has_compiled_parameter :: "('d, 'f) TorchCompilerState \<Rightarrow> symbolic_leaf \<Rightarrow> bool" where
  "has_compiled_parameter st p = (map_of st p \<noteq> None)"

definition retrieve_compiled_parameter ::
  "('d, 'f) TorchCompilerState \<Rightarrow> symbolic_leaf
     \<Rightarrow> error + ('d, 'f) TorchTensorParameter \<times> nat" where
  "retrieve_compiled_parameter st p =
     (case map_of st p of None \<Rightarrow> Inl KeyError | Some v \<Rightarrow> Inr v)"

definition register_compiled_parameter ::
  "nat \<Rightarrow> ('d, 'f) TorchCompilerState \<Rightarrow> symbolic_leaf \<Rightarrow> ('d, 'f) TorchTensorParameter
     \<Rightarrow> ('d, 'f) TorchCompilerState" where
  "register_compiled_parameter fold_idx st p compiled_p =
     AList.update p (compiled_p, fold_idx) st"

text \<open>
  The compiler: what the rules use of torch and of the compiler (parameters, since
  neither is among the sources), the state, and \<open>tensors\<close>, the materializations built
  so far, each with the symbolic parameter it was built for.  A new materialization
  takes the next free identity.
\<close>

record ('d, 'f) TorchCompiler =
  torch_int64 :: 'd
  get_default_dtype :: 'd
  to_complex :: "'d \<Rightarrow> 'd"
  compile_initializer :: "Initializer \<Rightarrow> 'f"
  new_fold_idx :: nat
  state :: "('d, 'f) TorchCompilerState"
  tensors :: "(symbolic_leaf \<times> ('d, 'f) TorchTensorParameter) list"

text \<open>\<^verbatim>\<open>_retrieve_dtype\<close>, with its final \<^verbatim>\<open>raise ValueError\<close>.\<close>

definition retrieve_dtype :: "('d, 'f) TorchCompiler \<Rightarrow> DataType \<Rightarrow> error + 'd" where
  "retrieve_dtype compiler dtype =
     (if dtype = INTEGER then Inr (torch_int64 compiler)
      else
        let default_float_dtype = get_default_dtype compiler in
        if dtype = REAL then Inr default_float_dtype
        else if dtype = COMPLEX then Inr (to_complex compiler default_float_dtype)
        else Inl ValueError)"

definition compile_tensor_parameter ::
  "('d, 'f) TorchCompiler \<Rightarrow> tensor_parameter
     \<Rightarrow> error + ('d, 'f) torch_parameter \<times> ('d, 'f) TorchCompiler" where
  "compile_tensor_parameter compiler p =
     (if has_compiled_parameter (state compiler) (TensorP p) then
        (case retrieve_compiled_parameter (state compiler) (TensorP p) of
           Inl e \<Rightarrow> Inl e
         | Inr (compiled_p, fold_idx) \<Rightarrow>
             Inr (TorchPointerParameter compiled_p fold_idx, compiler))
      else
        let init = compile_initializer compiler (tp_initializer p) in
        (case retrieve_dtype compiler (tp_dtype p) of
           Inl e \<Rightarrow> Inl e
         | Inr dtype \<Rightarrow>
             let compiled_p =
                   \<lparr>t_ident = length (tensors compiler), t_shape = tp_shape p,
                    requires_grad = tp_learnable p, initializer_ = init,
                    t_dtype = Some dtype\<rparr>
             in Inr (TensorNode compiled_p,
                     compiler\<lparr>tensors := tensors compiler @ [(TensorP p, compiled_p)],
                              state := register_compiled_parameter (new_fold_idx compiler)
                                         (state compiler) (TensorP p) compiled_p\<rparr>)))"

definition compile_constant_parameter ::
  "('d, 'f) TorchCompiler \<Rightarrow> constant_parameter
     \<Rightarrow> error + ('d, 'f) torch_parameter \<times> ('d, 'f) TorchCompiler" where
  "compile_constant_parameter compiler p =
     (if has_compiled_parameter (state compiler) (ConstantP p) then
        (case retrieve_compiled_parameter (state compiler) (ConstantP p) of
           Inl e \<Rightarrow> Inl e
         | Inr (compiled_p, fold_idx) \<Rightarrow>
             Inr (TorchPointerParameter compiled_p fold_idx, compiler))
      else
        let init = compile_initializer compiler (cp_initializer p);
            compiled_p =
              \<lparr>t_ident = length (tensors compiler), t_shape = cp_shape p,
               requires_grad = False, initializer_ = init, t_dtype = None\<rparr>
        in Inr (TensorNode compiled_p,
                compiler\<lparr>tensors := tensors compiler @ [(ConstantP p, compiled_p)],
                         state := register_compiled_parameter (new_fold_idx compiler)
                                    (state compiler) (ConstantP p) compiled_p\<rparr>))"

text \<open>
  The dispatch of \<^verbatim>\<open>DEFAULT_PARAMETER_COMPILATION_RULES\<close> on the class of the leaf,
  and a sequence of compilation requests made through one compiler, in order.
\<close>

fun compile_parameter ::
  "('d, 'f) TorchCompiler \<Rightarrow> symbolic_leaf
     \<Rightarrow> error + ('d, 'f) torch_parameter \<times> ('d, 'f) TorchCompiler" where
  "compile_parameter compiler (TensorP p) = compile_tensor_parameter compiler p"
| "compile_parameter compiler (ConstantP p) = compile_constant_parameter compiler p"

fun compile_parameters ::
  "('d, 'f) TorchCompiler \<Rightarrow> symbolic_leaf list
     \<Rightarrow> error + ('d, 'f) torch_parameter list \<times> ('d, 'f) TorchCompiler" where
  "compile_parameters compiler [] = Inr ([], compiler)"
| "compile_parameters compiler (p # ps) =
     (case compile_parameter compiler p of
        Inl e \<Rightarrow> Inl e
      | Inr (r, compiler') \<Rightarrow>
          (case compile_parameters compiler' ps of
             Inl e \<Rightarrow> Inl e
           | Inr (rs, compiler'') \<Rightarrow> Inr (r # rs, compiler'')))"

text \<open>The number of materializations built for a symbolic parameter.\<close>

definition materializations :: "('d, 'f) TorchCompiler \<Rightarrow> symbolic_leaf \<Rightarrow> nat" where
  "materializations compiler p = length (filter (\<lambda>(q, t). q = p) (tensors compiler))"

section \<open>Examples\<close>

definition mk_layer :: "nat \<Rightarrow> LayerBase \<Rightarrow> string \<Rightarrow> Scope \<Rightarrow> SymLayer" where
  "mk_layer i b t s =
     \<lparr>ident = i, ltype = t, scope = s, arity = 1, base = b, num_units = 1,
      operation = None\<rparr>"

definition in0 :: SymLayer where "in0 = mk_layer 0 SymInputLayer ''SymInputLayer'' {0}"
definition in1 :: SymLayer where "in1 = mk_layer 1 SymInputLayer ''SymInputLayer'' {1}"
definition sum0 :: SymLayer where "sum0 = mk_layer 2 SymSumLayer ''SymSumLayer'' {0}"
definition sum1 :: SymLayer where "sum1 = mk_layer 3 SymSumLayer ''SymSumLayer'' {1}"
definition prod01 :: SymLayer where "prod01 = mk_layer 4 SymProdLayer ''SymProdLayer'' {0, 1}"

text \<open>Two input layers over the variables 0 and 1, multiplied by one product layer.\<close>

definition product_circuit :: SymCircuit where
  "product_circuit =
     \<lparr>sc_scope = {0, 1}, layers = [in0, in1, prod01],
      in_layers = [(prod01, [in0, in1])],
      out_layers = [(in0, [prod01]), (in1, [prod01])],
      sc_operation = None\<rparr>"

text \<open>One input layer over the variable 0, under one sum layer.\<close>

definition sum_circuit :: SymCircuit where
  "sum_circuit =
     \<lparr>sc_scope = {0}, layers = [in0, sum0],
      in_layers = [(sum0, [in0])],
      out_layers = [(in0, [sum0])],
      sc_operation = None\<rparr>"

text \<open>Two input layers over the variables 0 and 1, each under its own sum layer.\<close>

definition two_sums_circuit :: SymCircuit where
  "two_sums_circuit =
     \<lparr>sc_scope = {0, 1}, layers = [in0, in1, sum0, sum1],
      in_layers = [(sum0, [in0]), (sum1, [in1])],
      out_layers = [(in0, [sum0]), (in1, [sum1])],
      sc_operation = None\<rparr>"

text \<open>
  A circuit with a manual cycle: \<open>sum0\<close> is the output layer and reads \<open>in0\<close>, and
  \<open>in0\<close> and \<open>in1\<close> read each other.
\<close>

definition cyclic_circuit :: SymCircuit where
  "cyclic_circuit =
     \<lparr>sc_scope = {0, 1}, layers = [in0, in1, sum0],
      in_layers = [(sum0, [in0]), (in0, [in1]), (in1, [in0])],
      out_layers = [(in0, [sum0, in1]), (in1, [in0])],
      sc_operation = None\<rparr>"

text \<open>A circuit whose two layers read each other: it has no output layer.\<close>

definition loop_circuit :: SymCircuit where
  "loop_circuit =
     \<lparr>sc_scope = {0, 1}, layers = [in0, in1],
      in_layers = [(in0, [in1]), (in1, [in0])],
      out_layers = [(in0, [in1]), (in1, [in0])],
      sc_operation = None\<rparr>"

text \<open>
  The order in which the set of output layers is iterated when the layer with the
  larger identity has the smaller hash: the reverse of the layer order.
\<close>

definition rev_iter :: "SymLayer list \<Rightarrow> SymLayer list" where
  "rev_iter xs = rev (remdups xs)"

text \<open>
  An example registry with one integration rule, in the manner of
  \<^verbatim>\<open>integrate_ef_layer\<close>: the input layer becomes a constant layer over the same scope
  with the same number of units.
\<close>

definition constant_layer_rule :: "nat \<Rightarrow> SymLayer \<Rightarrow> SymLayer" where
  "constant_layer_rule oid sl =
     \<lparr>ident = oid, ltype = ''ConstantLayer'', scope = scope sl, arity = arity sl,
      base = SymInputLayer, num_units = num_units sl,
      operation = Some (INTEGRATION, [ident sl])\<rparr>"

definition example_registry :: SymOperatorRegistry where
  "example_registry =
     \<lparr>has_rule = (\<lambda>operator t. False),
      retrieve_rule = (\<lambda>operator t. constant_layer_rule)\<rparr>"

text \<open>
  Two categorical layers over the variable 0, with 2 and 3 output units, one channel
  and two categories.
\<close>

definition cat2 :: Layer where
  "cat2 = (InputLayer_init 0 ''CategoricalLayer'' {0} 2 1)
            \<lparr>num_categories := Some 2, probs := Some (Parameter [2, 1, 2])\<rparr>"

definition cat3 :: Layer where
  "cat3 = (InputLayer_init 1 ''CategoricalLayer'' {0} 3 1)
            \<lparr>num_categories := Some 2, probs := Some (Parameter [3, 1, 2])\<rparr>"

text \<open>
  A compiler with an empty state, a learnable tensor parameter and a constant
  parameter.
\<close>

definition compiler0 :: "(string, Initializer) TorchCompiler" where
  "compiler0 =
     \<lparr>torch_int64 = ''int64'', get_default_dtype = ''float32'',
      to_complex = (\<lambda>d. ''complex64''), compile_initializer = (\<lambda>i. i),
      new_fold_idx = 0, state = [], tensors = []\<rparr>"

definition leaf_w :: symbolic_leaf where
  "leaf_w = TensorP \<lparr>tp_ident = 0, tp_shape = [2, 3], tp_initializer = NormalInitializer,
                     tp_learnable = True, tp_dtype = REAL\<rparr>"

definition leaf_c :: symbolic_leaf where
  "leaf_c = ConstantP \<lparr>cp_ident = 1, cp_shape = [2], cp_initializer = NormalInitializer\<rparr>"

definition tensor_w :: "(string, Initializer) TorchTensorParameter" where
  "tensor_w = \<lparr>t_ident = 0, t_shape = [2, 3], requires_grad = True,
               initializer_ = NormalInitializer, t_dtype = Some ''float32''\<rparr>"

section \<open>Smoothness\<close>

lemmas example_layer_defs =
  mk_layer_def in0_def in1_def sum0_def sum1_def prod01_def

lemmas view_defs =
  getitem_def layer_inputs_def layer_outputs_def isinstance_def input_layers_def
  sum_layers_def product_layers_def output_layers_def inner_layers_def

text \<open>
  Claim C8.  For every symbolic circuit, \<open>is_smooth\<close> is true exactly when, for every
  layer of the circuit that is a sum layer, each direct input of that layer (each
  element of the list \<open>in_layers\<close> stores under the layer) has the same scope as the
  sum layer itself.  Layers that are not sum layers are not looked at.
\<close>

theorem is_smooth_iff:
  "is_smooth sc \<longleftrightarrow>
     (\<forall>sl \<in> set (layers sc). \<forall>ins.
        base sl = SymSumLayer \<and> map_of (in_layers sc) sl = Some ins
          \<longrightarrow> (\<forall>in_sl \<in> set ins. scope in_sl = scope sl))"
proof -
  have step: "(\<forall>in_sl \<in> set (getitem (in_layers sc) sl). scope sl = scope in_sl) \<longleftrightarrow>
      (\<forall>ins. map_of (in_layers sc) sl = Some ins
         \<longrightarrow> (\<forall>in_sl \<in> set ins. scope in_sl = scope sl))" for sl
    by (cases "map_of (in_layers sc) sl") (auto simp: getitem_def)
  have "is_smooth sc \<longleftrightarrow>
     (\<forall>sl \<in> set (layers sc). base sl = SymSumLayer
        \<longrightarrow> (\<forall>in_sl \<in> set (getitem (in_layers sc) sl). scope sl = scope in_sl))"
    by (auto simp: is_smooth_def sum_layers_def isinstance_def list_all_iff)
  then show ?thesis
    unfolding step by blast
qed

text \<open>
  The sum of \<open>sum_circuit\<close> has the scope of its input, so the circuit is smooth.
  \<open>product_circuit\<close> has no sum layer, so it is smooth although the inputs of its
  product layer have other scopes than the product.  A sum over the variable 1 fed by
  the input over the variable 0 is not smooth.
\<close>

theorem is_smooth_iff_witness:
  "is_smooth sum_circuit \<and> is_smooth product_circuit \<and>
   \<not> is_smooth (sum_circuit\<lparr>layers := [in0, sum1], in_layers := [(sum1, [in0])]\<rparr>)"
proof (intro conjI)
  have "\<forall>sl \<in> set (layers sum_circuit). \<forall>ins.
          base sl = SymSumLayer \<and> map_of (in_layers sum_circuit) sl = Some ins
            \<longrightarrow> (\<forall>in_sl \<in> set ins. scope in_sl = scope sl)"
    by (simp add: sum_circuit_def example_layer_defs)
  then show "is_smooth sum_circuit"
    using is_smooth_iff [of sum_circuit] by simp
next
  have "\<forall>sl \<in> set (layers product_circuit). \<forall>ins.
          base sl = SymSumLayer \<and> map_of (in_layers product_circuit) sl = Some ins
            \<longrightarrow> (\<forall>in_sl \<in> set ins. scope in_sl = scope sl)"
    by (simp add: product_circuit_def example_layer_defs)
  then show "is_smooth product_circuit"
    using is_smooth_iff [of product_circuit] by simp
next
  let ?sc = "sum_circuit\<lparr>layers := [in0, sum1], in_layers := [(sum1, [in0])]\<rparr>"
  have "sum1 \<in> set (layers ?sc)" "base sum1 = SymSumLayer"
       "map_of (in_layers ?sc) sum1 = Some [in0]" "in0 \<in> set [in0]"
       "scope in0 \<noteq> scope sum1"
    by (simp_all add: sum_circuit_def example_layer_defs)
  then show "\<not> is_smooth ?sc"
    unfolding is_smooth_iff [of ?sc] by blast
qed

section \<open>Decomposability\<close>

text \<open>
  What \<open>is_decomposable\<close> computes: the left layer of every pair has an empty scope.
\<close>

lemma is_decomposable_iff:
  "is_decomposable sc \<longleftrightarrow>
     (\<forall>prod_sl \<in> set (product_layers sc).
        \<forall>(lhs_in_sl, rhs_in_sl) \<in> set (combinations2 (layer_inputs sc prod_sl)).
          scope lhs_in_sl = {})"
  by (fastforce simp: is_decomposable_def layer_inputs_def list_ex_iff)

text \<open>
  Claim C3 (evaluated at the failing input).  The product layer of \<open>product_circuit\<close>
  multiplies an input over the variable 0 and an input over the variable 1: the scopes
  of its direct inputs are pairwise disjoint, and \<open>is_decomposable\<close> is false.
\<close>

theorem is_decomposable_product_circuit:
  "pairwise_disjoint_inputs product_circuit \<and> is_decomposable product_circuit = False"
  by code_simp

section \<open>Compatibility\<close>

text \<open>
  \<open>is_compatible\<close> is false for every pair of circuits and every scope, so no circuit
  is structured decomposable and \<^verbatim>\<open>multiply\<close> raises \<open>StructuralPropertyError\<close>
  for every pair of circuits.
\<close>

lemma is_compatible_never:
  "is_compatible sc oth scp = False \<and> is_structured_decomposable sc = False \<and>
   multiply lhs_sc rhs_sc = Inl StructuralPropertyError"
  by (simp add: is_compatible_def is_structured_decomposable_def multiply_def)

text \<open>
  Claim C6 (evaluated at the failing input).  \<open>sum_circuit\<close> is smooth and decomposable
  and has no product layer, so it partitions every scope as itself does; it is not
  compatible with itself, and its product with itself raises
  \<open>StructuralPropertyError\<close>.
\<close>

theorem is_compatible_sum_circuit:
  "is_smooth sum_circuit \<and> is_decomposable sum_circuit \<and> product_layers sum_circuit = [] \<and>
   is_compatible sum_circuit sum_circuit None = False \<and>
   multiply sum_circuit sum_circuit = Inl StructuralPropertyError"
  by code_simp

section \<open>Integration\<close>

lemma integrate_StructuralPropertyError:
  "\<not> is_smooth sc \<or> \<not> is_decomposable sc
     \<Longrightarrow> integrate registry oid sc scope_arg = Inl StructuralPropertyError"
  by (simp add: integrate_def)

lemma integrate_ValueError:
  "is_smooth sc \<Longrightarrow> is_decomposable sc \<Longrightarrow> \<not> scp \<subseteq> sc_scope sc
     \<Longrightarrow> integrate registry oid sc (Some scp) = Inl ValueError"
  by (simp add: integrate_def Un_absorb1 subset_Un_eq)

text \<open>
  The loop stops with \<open>NotImplementedError\<close> at an input layer that meets the
  integration scope without lying inside it, when the loop reaches that layer.
\<close>

lemma integrate_layers_NotImplementedError:
  "isinstance sl SymInputLayer \<Longrightarrow> scope sl \<inter> scp \<noteq> {} \<Longrightarrow> \<not> scope sl \<subseteq> scp
     \<Longrightarrow> integrate_layers registry sc scp (sl # sls) st = Inl NotImplementedError"
  by simp

text \<open>Whenever \<^verbatim>\<open>integrate\<close> returns a circuit, the circuit has the operand's scope.\<close>

lemma integrate_scope:
  assumes "integrate registry oid sc scope_arg = Inr r"
  shows "sc_scope r = sc_scope sc"
proof -
  define scp where "scp = (case scope_arg of None \<Rightarrow> sc_scope sc | Some s \<Rightarrow> s)"
  define res where "res = integrate_layers registry sc scp (layers sc)
                  \<lparr>map_layers = [], new_in_layers = [], new_out_layers = [],
                   next_ident = oid\<rparr>"
  have eq: "integrate registry oid sc scope_arg =
     (if \<not> is_smooth sc \<or> \<not> is_decomposable sc then Inl StructuralPropertyError
      else if scp \<union> sc_scope sc \<noteq> sc_scope sc then Inl ValueError
        else
          (case res of
             Inl e \<Rightarrow> Inl e
           | Inr st \<Rightarrow>
               Inr \<lparr>sc_scope = sc_scope sc, layers = map snd (map_layers st),
                    in_layers = new_in_layers st, out_layers = new_out_layers st,
                    sc_operation = Some (C_INTEGRATION, scp)\<rparr>))"
    unfolding integrate_def scp_def res_def Let_def ..
  show ?thesis
  proof (cases res)
    case (Inl e)
    with assms eq show ?thesis by (simp split: if_splits)
  next
    case (Inr st)
    with assms eq have "r = \<lparr>sc_scope = sc_scope sc, layers = map snd (map_layers st),
                    in_layers = new_in_layers st, out_layers = new_out_layers st,
                    sc_operation = Some (C_INTEGRATION, scp)\<rparr>"
      by (simp split: if_splits)
    then show ?thesis by simp
  qed
qed

text \<open>
  Claim C4 (evaluated at the failing input).  \<open>sum_circuit\<close> is smooth and decomposable
  and has the scope \<open>{0}\<close>.  Integrated over its full scope it becomes a constant layer
  under a copy of the sum layer, and the circuit returned still has the scope \<open>{0}\<close>.
\<close>

theorem integrate_sum_circuit:
  "is_smooth sum_circuit \<and> is_decomposable sum_circuit \<and>
   pairwise_disjoint_inputs sum_circuit \<and>
   integrate example_registry 10 sum_circuit None =
     Inr \<lparr>sc_scope = {0},
          layers = [constant_layer_rule 10 in0, sum0\<lparr>ident := 11, operation := Some (NOP, [2])\<rparr>],
          in_layers = [(sum0\<lparr>ident := 11, operation := Some (NOP, [2])\<rparr>,
                        [constant_layer_rule 10 in0])],
          out_layers = [(constant_layer_rule 10 in0, [constant_layer_rule 10 in0])],
          sc_operation = Some (C_INTEGRATION, {0})\<rparr>"
  by code_simp

text \<open>The scope of the integral of \<open>sum_circuit\<close> is the scope of \<open>sum_circuit\<close>.\<close>

theorem integrate_sum_circuit_witness:
  "map_sum id sc_scope (integrate example_registry 10 sum_circuit None) = Inr {0} \<and>
   sc_scope sum_circuit = {0}"
  using integrate_sum_circuit by (simp add: sum_circuit_def)

text \<open>
  Claim C5 (evaluated at the failing input).  \<open>two_sums_circuit\<close> is smooth and
  decomposable, the integration scope \<open>{0}\<close> is a subset of its scope, and no input layer
  meets \<open>{0}\<close> without lying inside it; \<^verbatim>\<open>integrate\<close> fails with an
  \<open>AssertionError\<close> at the input layer over the variable 1.
\<close>

theorem integrate_two_sums_circuit:
  "is_smooth two_sums_circuit \<and> is_decomposable two_sums_circuit \<and>
   pairwise_disjoint_inputs two_sums_circuit \<and>
   {0} \<subseteq> sc_scope two_sums_circuit \<and> no_partial_overlap two_sums_circuit {0} \<and>
   integrate example_registry 10 two_sums_circuit (Some {0}) = Inl AssertionError"
  by code_simp

text \<open>The integration of \<open>two_sums_circuit\<close> over the variable 0 returns no circuit.\<close>

theorem integrate_two_sums_circuit_witness:
  "isl (integrate example_registry 10 two_sums_circuit (Some {0}))"
  using integrate_two_sums_circuit by simp

section \<open>Topological ordering\<close>

lemma topo_sorted_Nil: "topo_sorted g []"
  by (simp add: topo_sorted_def)

lemma topo_sorted_snoc:
  assumes "topo_sorted g acc" "n \<notin> set acc" "set (getitem g n) \<subseteq> set acc"
  shows "topo_sorted g (acc @ [n])"
  unfolding topo_sorted_def
proof (intro conjI allI impI)
  show "distinct (acc @ [n])" using assms by (simp add: topo_sorted_def)
next
  fix i assume "i < length (acc @ [n])"
  then consider "i < length acc" | "i = length acc" by fastforce
  then show "set (getitem g ((acc @ [n]) ! i)) \<subseteq> set (take i (acc @ [n]))"
  proof cases
    case 1
    with assms(1) show ?thesis by (simp add: topo_sorted_def nth_append)
  next
    case 2
    with assms(3) show ?thesis by simp
  qed
qed

text \<open>
  A search that returns keeps the list in topological order, orders the nodes it was
  asked for, and adds no node of the current path.
\<close>

lemma topo_visit_sound:
  "topo_visit g path n acc = Some acc' \<Longrightarrow> topo_sorted g acc
     \<Longrightarrow> topo_sorted g acc' \<and> n \<in> set acc' \<and> set acc \<subseteq> set acc' \<and>
         set acc' \<inter> set path \<subseteq> set acc"
  "topo_visit_all g path ns acc = Some acc' \<Longrightarrow> topo_sorted g acc
     \<Longrightarrow> topo_sorted g acc' \<and> set ns \<subseteq> set acc' \<and> set acc \<subseteq> set acc' \<and>
         set acc' \<inter> set path \<subseteq> set acc"
proof (induction g path n acc and g path ns acc arbitrary: acc' and acc'
    rule: topo_visit_topo_visit_all.induct)
  case (1 g path n acc)
  show ?case
  proof (cases "n \<in> set acc")
    case True
    with "1.prems" show ?thesis by (auto split: if_splits)
  next
    case False
    from "1.prems"(1) have np: "n \<notin> set path" by (auto split: if_splits)
    with False "1.prems"(1) obtain acc1 where
      a1: "topo_visit_all g (n # path) (getitem g n) acc = Some acc1" "acc' = acc1 @ [n]"
      by (auto split: option.splits)
    from "1.IH" [OF np False a1(1) "1.prems"(2)] have
      ih: "topo_sorted g acc1" "set (getitem g n) \<subseteq> set acc1" "set acc \<subseteq> set acc1"
          "set acc1 \<inter> set (n # path) \<subseteq> set acc"
      by auto
    from ih(4) False have "n \<notin> set acc1" by auto
    with ih a1(2) np topo_sorted_snoc [of g acc1 n] show ?thesis by auto
  qed
next
  case (2 g path acc)
  then show ?case by simp
next
  case (3 g path n ns acc)
  from "3.prems"(1) obtain acc1 where
    a1: "topo_visit g path n acc = Some acc1" "topo_visit_all g path ns acc1 = Some acc'"
    by (auto split: option.splits)
  from "3.IH"(1) [OF a1(1) "3.prems"(2)] have
    ih1: "topo_sorted g acc1" "n \<in> set acc1" "set acc \<subseteq> set acc1"
         "set acc1 \<inter> set path \<subseteq> set acc"
    by auto
  from "3.IH"(2) [OF a1(1) a1(2) ih1(1)] have
    ih2: "topo_sorted g acc'" "set ns \<subseteq> set acc'" "set acc1 \<subseteq> set acc'"
         "set acc' \<inter> set path \<subseteq> set acc1"
    by auto
  from ih1 ih2 show ?case by auto
qed

lemma topo_sorted_edge:
  assumes "topo_sorted g acc" "i < length acc" "(acc ! i, b) \<in> edges g"
  shows "\<exists>j<i. acc ! j = b"
proof -
  from assms have "b \<in> set (take i acc)"
    by (auto simp: topo_sorted_def edges_def)
  then obtain j where "j < length (take i acc)" "take i acc ! j = b"
    by (auto simp: in_set_conv_nth)
  then show ?thesis using assms(2) by auto
qed

lemma topo_sorted_trancl:
  assumes "topo_sorted g acc" "(a, b) \<in> (edges g)\<^sup>+"
  shows "\<forall>i<length acc. acc ! i = a \<longrightarrow> (\<exists>j<i. acc ! j = b)"
  using assms(2)
proof (induction rule: trancl_induct)
  case (base y)
  then show ?case using topo_sorted_edge [OF assms(1)] by blast
next
  case (step y z)
  show ?case
  proof (intro allI impI)
    fix i assume i: "i < length acc" "acc ! i = a"
    with step.IH obtain j where j: "j < i" "acc ! j = y" by blast
    with i have "j < length acc" by simp
    with topo_sorted_edge [OF assms(1) this] j step.hyps(2) obtain k where
      k: "k < j" "acc ! k = z" by blast
    from k(1) j(1) have "k < i" by simp
    with k(2) show "\<exists>j<i. acc ! j = z" by blast
  qed
qed

lemma topo_sorted_no_cycle:
  assumes "topo_sorted g acc" "n \<in> set acc"
  shows "(n, n) \<notin> (edges g)\<^sup>+"
proof
  assume c: "(n, n) \<in> (edges g)\<^sup>+"
  from assms(2) obtain i where i: "i < length acc" "acc ! i = n"
    by (auto simp: in_set_conv_nth)
  with topo_sorted_trancl [OF assms(1) c] obtain j where j: "j < i" "acc ! j = n" by blast
  from assms(1) have "distinct acc" by (simp add: topo_sorted_def)
  with i j show False by (auto simp: distinct_conv_nth)
qed

lemma topo_sorted_closed:
  assumes "topo_sorted g acc" "(r, n) \<in> (edges g)\<^sup>*" "r \<in> set acc"
  shows "n \<in> set acc"
  using assms(2)
proof (induction rule: rtrancl_induct)
  case base
  then show ?case by (rule assms(3))
next
  case (step y z)
  from step.IH obtain i where "i < length acc" "acc ! i = y"
    by (auto simp: in_set_conv_nth)
  with topo_sorted_edge [OF assms(1), of i z] step.hyps(2) obtain j where
    j: "j < i" "acc ! j = z" by blast
  from j(1) \<open>i < length acc\<close> have "j < length acc" by simp
  with j(2) show ?case using nth_mem by blast
qed

text \<open>An order that is returned is a topological order that holds every root.\<close>

lemma topological_ordering_sound:
  assumes "topological_ordering roots g = Some acc"
  shows "topo_sorted g acc \<and> set roots \<subseteq> set acc"
  using topo_visit_sound(2) [of g "[]" roots "[]" acc] assms
  by (simp add: topological_ordering_def topo_sorted_Nil)

lemma topological_ordering_cycle:
  assumes "r \<in> set roots" "(r, n) \<in> (edges g)\<^sup>*" "(n, n) \<in> (edges g)\<^sup>+"
  shows "topological_ordering roots g = None"
proof (cases "topological_ordering roots g")
  case None
  then show ?thesis .
next
  case (Some acc)
  from topological_ordering_sound [OF Some] assms(1) have
    s: "topo_sorted g acc" "r \<in> set acc" by auto
  from topo_sorted_closed [OF s(1) assms(2) s(2)] have "n \<in> set acc" .
  from topo_sorted_no_cycle [OF s(1) this] assms(3) show ?thesis by simp
qed

lemma layers_topological_ordering_sound:
  assumes "layers_topological_ordering set_iter sc = Inr acc"
    and "set (set_iter (output_layers sc)) = set (output_layers sc)"
  shows "topo_sorted (in_layers sc) acc \<and> set (output_layers sc) \<subseteq> set acc"
proof -
  from assms(1) have
    "topological_ordering (set_iter (output_layers sc)) (in_layers sc) = Some acc"
    by (simp add: layers_topological_ordering_def split: option.splits)
  from topological_ordering_sound [OF this] assms(2) show ?thesis by simp
qed

text \<open>
  The search reads the dictionary through \<open>getitem\<close> alone, and a read that stores a
  missing key with an empty list changes no later read: a circuit gives the same
  result after any reads of its two dictionaries.
\<close>

lemma getitem_touch: "getitem (touch d k) = getitem d"
proof
  fix x
  show "getitem (touch d k) x = getitem d x"
    by (cases "map_of d k"; cases "map_of d x")
       (auto simp: getitem_def touch_def map_add_def split: option.splits if_splits)
qed

lemma getitem_foldl_touch: "getitem (foldl touch d ks) = getitem d"
  by (induction ks arbitrary: d) (simp_all add: getitem_touch)

lemma topo_visit_cong:
  assumes "getitem g' = getitem g"
  shows "topo_visit g' path n acc = topo_visit g path n acc"
    and "topo_visit_all g' path ns acc = topo_visit_all g path ns acc"
  using assms
proof (induction g path n acc and g path ns acc rule: topo_visit_topo_visit_all.induct)
  case (1 g path n acc)
  show ?case
  proof (cases "n \<in> set path \<or> n \<in> set acc")
    case True
    then show ?thesis by auto
  next
    case False
    then have np: "n \<notin> set path" and na: "n \<notin> set acc" by simp_all
    from "1.IH" [OF np na "1.prems"] "1.prems" np na show ?thesis by simp
  qed
next
  case (2 g path acc)
  show ?case by simp
next
  case (3 g path n ns acc)
  from "3.IH"(1) [OF "3.prems"] have
    v: "topo_visit g' path n acc = topo_visit g path n acc" .
  show ?case
  proof (cases "topo_visit g path n acc")
    case None
    with v show ?thesis by simp
  next
    case (Some acc1)
    from "3.IH"(2) [OF Some "3.prems"] v Some show ?thesis by simp
  qed
qed

lemma output_layers_after_reads:
  "output_layers (after_reads sc ks_in ks_out) = output_layers sc"
  by (simp add: output_layers_def after_reads_def getitem_foldl_touch)

lemma layers_topological_ordering_after_reads:
  "layers_topological_ordering set_iter (after_reads sc ks_in ks_out)
     = layers_topological_ordering set_iter sc"
proof -
  have "getitem (in_layers (after_reads sc ks_in ks_out)) = getitem (in_layers sc)"
    by (simp add: after_reads_def getitem_foldl_touch)
  from topo_visit_cong(2) [OF this] show ?thesis
    by (simp add: layers_topological_ordering_def topological_ordering_def
        output_layers_after_reads)
qed

text \<open>
  Claim C9 (as amended).  The ordering is deterministic: a call changes the circuit only
  by the keys its reads store in the two dictionaries, and on the circuit as a call
  left it the next call returns the same result, for whatever order the set of output
  layers is iterated in.  When a layer that an output layer reaches through
  \<open>in_layers\<close> lies on a cycle of \<open>in_layers\<close>, the result is the error
  \<open>ValueError\<close>, in whatever order the output layers are iterated.
\<close>

theorem layers_topological_ordering_cycle:
  "layers_topological_ordering set_iter (after_reads sc ks_in ks_out)
     = layers_topological_ordering set_iter sc \<and>
   (set (set_iter (output_layers sc)) = set (output_layers sc) \<and>
    r \<in> set (output_layers sc) \<and> (r, n) \<in> (edges (in_layers sc))\<^sup>* \<and>
    (n, n) \<in> (edges (in_layers sc))\<^sup>+
      \<longrightarrow> layers_topological_ordering set_iter sc = Inl ValueError)"
proof (intro conjI impI)
  show "layers_topological_ordering set_iter (after_reads sc ks_in ks_out)
          = layers_topological_ordering set_iter sc"
    by (rule layers_topological_ordering_after_reads)
next
  assume a: "set (set_iter (output_layers sc)) = set (output_layers sc) \<and>
             r \<in> set (output_layers sc) \<and> (r, n) \<in> (edges (in_layers sc))\<^sup>* \<and>
             (n, n) \<in> (edges (in_layers sc))\<^sup>+"
  then have r: "r \<in> set (set_iter (output_layers sc))" by simp
  from a have p: "(r, n) \<in> (edges (in_layers sc))\<^sup>*" by simp
  from a have c: "(n, n) \<in> (edges (in_layers sc))\<^sup>+" by simp
  have "topological_ordering (set_iter (output_layers sc)) (in_layers sc) = None"
    by (rule topological_ordering_cycle [OF r p c])
  then show "layers_topological_ordering set_iter sc = Inl ValueError"
    by (simp add: layers_topological_ordering_def)
qed

text \<open>
  With the output layers iterated in reverse layer order, \<open>two_sums_circuit\<close> is
  ordered as \<open>in1, sum1, in0, sum0\<close>, also after the reads of a first call have stored
  their keys.  In \<open>cyclic_circuit\<close> the output layer \<open>sum0\<close> reaches \<open>in0\<close>, which
  lies on the cycle through \<open>in1\<close>: the ordering raises \<open>ValueError\<close>.
\<close>

lemma cyclic_circuit_edges:
  "sum0 \<in> set (output_layers cyclic_circuit)"
  "(sum0, in0) \<in> edges (in_layers cyclic_circuit)"
  "(in0, in1) \<in> edges (in_layers cyclic_circuit)"
  "(in1, in0) \<in> edges (in_layers cyclic_circuit)"
  by (simp_all add: edges_def cyclic_circuit_def view_defs example_layer_defs)

theorem layers_topological_ordering_cycle_witness:
  "layers_topological_ordering rev_iter two_sums_circuit = Inr [in1, sum1, in0, sum0] \<and>
   layers_topological_ordering rev_iter
     (after_reads two_sums_circuit [sum1, in1, sum0, in0] [in0, in1, sum0, sum1])
     = Inr [in1, sum1, in0, sum0] \<and>
   set (rev_iter (output_layers cyclic_circuit)) = set (output_layers cyclic_circuit) \<and>
   sum0 \<in> set (output_layers cyclic_circuit) \<and>
   (sum0, in0) \<in> (edges (in_layers cyclic_circuit))\<^sup>* \<and>
   (in0, in0) \<in> (edges (in_layers cyclic_circuit))\<^sup>+ \<and>
   layers_topological_ordering rev_iter cyclic_circuit = Inl ValueError"
proof -
  have 0: "layers_topological_ordering rev_iter two_sums_circuit
             = Inr [in1, sum1, in0, sum0]"
    by code_simp
  have 1: "(sum0, in0) \<in> (edges (in_layers cyclic_circuit))\<^sup>*"
    using cyclic_circuit_edges(2) by blast
  have 2: "(in0, in0) \<in> (edges (in_layers cyclic_circuit))\<^sup>+"
    using cyclic_circuit_edges(3,4) by (meson trancl.simps)
  have 3: "set (rev_iter (output_layers cyclic_circuit)) = set (output_layers cyclic_circuit)"
    by (simp add: rev_iter_def)
  note again = layers_topological_ordering_cycle
      [where set_iter = rev_iter and sc = two_sums_circuit
         and ks_in = "[sum1, in1, sum0, in0]" and ks_out = "[in0, in1, sum0, sum1]"]
  note cycle = layers_topological_ordering_cycle
      [where set_iter = rev_iter and sc = cyclic_circuit and r = sum0 and n = in0]
  from again 0 have 4: "layers_topological_ordering rev_iter
     (after_reads two_sums_circuit [sum1, in1, sum0, in0] [in0, in1, sum0, sum1])
     = Inr [in1, sum1, in0, sum0]"
    by simp
  from cycle 3 cyclic_circuit_edges(1) 1 2 have
    5: "layers_topological_ordering rev_iter cyclic_circuit = Inl ValueError"
    by blast
  from 0 4 3 cyclic_circuit_edges(1) 1 2 5 show ?thesis by (intro conjI)
qed

text \<open>
  The claim as stated fails twice.  The cycle of \<open>cyclic_circuit\<close> is reported as
  \<open>ValueError\<close>, not as \<open>CyclicGraphError\<close>; and \<open>loop_circuit\<close>, whose two layers
  read each other, has no output layer to start from, so the ordering returns the empty
  list and nothing is raised.
\<close>

theorem layers_topological_ordering_counterexample:
  "(in0, in0) \<in> (edges (in_layers cyclic_circuit))\<^sup>+ \<and>
   layers_topological_ordering remdups cyclic_circuit \<noteq> Inl CyclicGraphError \<and>
   (in0, in0) \<in> (edges (in_layers loop_circuit))\<^sup>+ \<and>
   layers_topological_ordering remdups loop_circuit = Inr []"
proof -
  have 1: "(in0, in0) \<in> (edges (in_layers cyclic_circuit))\<^sup>+"
    using cyclic_circuit_edges(3,4) by (meson trancl.simps)
  have "(in0, in1) \<in> edges (in_layers loop_circuit)"
       "(in1, in0) \<in> edges (in_layers loop_circuit)"
    by (simp_all add: edges_def loop_circuit_def view_defs example_layer_defs)
  then have 2: "(in0, in0) \<in> (edges (in_layers loop_circuit))\<^sup>+"
    by (meson trancl.simps)
  have 3: "layers_topological_ordering remdups cyclic_circuit = Inl ValueError"
    by code_simp
  have 4: "layers_topological_ordering remdups loop_circuit = Inr []"
    by code_simp
  from 1 2 3 4 show ?thesis by simp
qed

section \<open>Shapes of parameter expressions\<close>

text \<open>
  The two slice comparisons of \<^verbatim>\<open>OuterProductParameter\<close> say that the shapes are
  equal except at the axis.
\<close>

lemma equal_except_iff:
  assumes "ax < length s1"
  shows "equal_except ax s1 s2 \<longleftrightarrow>
     length s1 = length s2 \<and> take ax s1 = take ax s2 \<and> drop (ax + 1) s1 = drop (ax + 1) s2"
proof (cases "length s1 = length s2")
  case False
  then show ?thesis by (simp add: equal_except_def)
next
  case len: True
  have "(\<forall>i<length s1. i = ax \<or> s1 ! i = s2 ! i) \<longleftrightarrow>
        take ax s1 = take ax s2 \<and> drop (ax + 1) s1 = drop (ax + 1) s2" (is "?L \<longleftrightarrow> ?R")
  proof
    assume L: ?L
    have "take ax s1 = take ax s2"
    proof (rule nth_equalityI)
      show "length (take ax s1) = length (take ax s2)" using len by simp
    next
      fix i assume "i < length (take ax s1)"
      then have i: "i < ax" "i < length s1" by simp_all
      with L have "s1 ! i = s2 ! i" by blast
      with i show "take ax s1 ! i = take ax s2 ! i" by simp
    qed
    moreover have "drop (ax + 1) s1 = drop (ax + 1) s2"
    proof (rule nth_equalityI)
      show "length (drop (ax + 1) s1) = length (drop (ax + 1) s2)" using len by simp
    next
      fix i assume "i < length (drop (ax + 1) s1)"
      then have i: "ax + 1 + i < length s1" by simp
      with L have "s1 ! (ax + 1 + i) = s2 ! (ax + 1 + i)" by fastforce
      with i len show "drop (ax + 1) s1 ! i = drop (ax + 1) s2 ! i" by simp
    qed
    ultimately show ?R by simp
  next
    assume R: ?R
    show ?L
    proof (intro allI impI)
      fix i assume i: "i < length s1"
      show "i = ax \<or> s1 ! i = s2 ! i"
      proof (cases "i < ax")
        case True
        have "s1 ! i = take ax s1 ! i" using True by simp
        also have "\<dots> = take ax s2 ! i" using R by simp
        also have "\<dots> = s2 ! i" using True by simp
        finally show ?thesis by simp
      next
        case False
        show ?thesis
        proof (cases "i = ax")
          case True then show ?thesis by simp
        next
          case ne: False
          with False have "ax + 1 \<le> i" by simp
          then obtain k where k: "i = ax + 1 + k"
            using le_Suc_ex by blast
          have "s1 ! i = drop (ax + 1) s1 ! k" using k i by simp
          also have "\<dots> = drop (ax + 1) s2 ! k" using R by simp
          also have "\<dots> = s2 ! i" using k i len by simp
          finally show ?thesis by simp
        qed
      qed
    qed
  qed
  with len show ?thesis by (simp add: equal_except_def list_all_iff Ball_def)
qed

text \<open>The four shape laws, one per class, each with the exact condition of success.\<close>

lemma hadamard_law:
  "(case HadamardParameter opd1 opd2 of
      Inr p \<Rightarrow> shape opd1 = shape opd2 \<and> shape p = shape opd1
    | Inl e \<Rightarrow> shape opd1 \<noteq> shape opd2 \<and> e = AssertionError)"
  by (simp add: HadamardParameter_def)

lemma kronecker_law:
  "(case KroneckerParameter opd1 opd2 of
      Inr p \<Rightarrow> length (shape opd1) = length (shape opd2) \<and>
               shape p = map2 (*) (shape opd1) (shape opd2)
    | Inl e \<Rightarrow> length (shape opd1) \<noteq> length (shape opd2) \<and> e = AssertionError)"
proof -
  have "map (\<lambda>i. xs ! i * ys ! i) [0..<length xs] = map2 (*) xs ys"
    if "length xs = length ys" for xs ys :: "int list"
    using that by (intro nth_equalityI) simp_all
  then show ?thesis by (simp add: KroneckerParameter_def)
qed

lemma outer_product_law:
  "(case OuterProductParameter opd1 opd2 axis of
      Inr p \<Rightarrow>
        valid_axis axis (length (shape opd1)) \<and>
        equal_except (the_axis axis (length (shape opd1))) (shape opd1) (shape opd2) \<and>
        shape p = (shape opd1)[the_axis axis (length (shape opd1)) :=
                     shape opd1 ! the_axis axis (length (shape opd1)) *
                     shape opd2 ! the_axis axis (length (shape opd1))]
    | Inl e \<Rightarrow>
        \<not> (valid_axis axis (length (shape opd1)) \<and>
           equal_except (the_axis axis (length (shape opd1))) (shape opd1) (shape opd2)) \<and>
        e = AssertionError)"
proof (cases "valid_axis axis (length (shape opd1))")
  case False
  then show ?thesis
    by (auto simp: OuterProductParameter_def valid_axis_def Let_def)
next
  case True
  then have ax: "the_axis axis (length (shape opd1)) < length (shape opd1)"
    by (auto simp: valid_axis_def the_axis_def)
  have upd: "take n xs @ [v] @ drop (n + 1) xs = xs[n := v]" if "n < length xs"
    for n and xs :: "int list" and v
    using that by (simp add: upd_conv_take_nth_drop)
  show ?thesis
    using True ax equal_except_iff [OF ax, of "shape opd2"] upd [OF ax]
    by (auto simp: OuterProductParameter_def valid_axis_def the_axis_def Let_def)
qed

lemma reduce_law:
  "(case ReduceOpParameter k opd axis of
      Inr p \<Rightarrow>
        valid_axis axis (length (shape opd)) \<and>
        length (shape p) + 1 = length (shape opd) \<and>
        list_all (\<lambda>i. shape p ! i =
                    shape opd ! (if i < the_axis axis (length (shape opd)) then i else i + 1))
          [0..<length (shape p)]
    | Inl e \<Rightarrow> \<not> valid_axis axis (length (shape opd)) \<and> e = AssertionError)"
proof (cases "valid_axis axis (length (shape opd))")
  case False
  then show ?thesis
    by (auto simp: ReduceOpParameter_def valid_axis_def Let_def)
next
  case True
  then have ax: "the_axis axis (length (shape opd)) < length (shape opd)"
    by (auto simp: valid_axis_def the_axis_def)
  have "(take n xs @ drop (n + 1) xs) ! i = xs ! (if i < n then i else i + 1)"
    if "n < length xs" "i < length xs - 1" for n i and xs :: "int list"
    using that by (auto simp: nth_append min_def)
  with True ax show ?thesis
    by (auto simp: ReduceOpParameter_def valid_axis_def the_axis_def Let_def list_all_iff
        min_def)
qed

text \<open>
  Claim C7 (as amended).  A Hadamard node is built exactly when the operand shapes are
  equal, and has that shape.  A Kronecker node is built exactly when the operands have
  the same rank, and its shape is the elementwise product of the operand shapes.  An
  outer product node is built exactly when the axis is valid and the operand shapes are
  equal except at the axis, and its shape is the left shape with the product of the two
  dimensions at the axis.  A reduction node (sum, product, log-sum-exp) is built exactly
  when the axis is valid, and its shape is the operand shape without the axis.  In every
  other case the constructor raises \<open>AssertionError\<close>.
\<close>

theorem parameter_shape_laws:
  "(case HadamardParameter opd1 opd2 of
      Inr p \<Rightarrow> shape opd1 = shape opd2 \<and> shape p = shape opd1
    | Inl e \<Rightarrow> shape opd1 \<noteq> shape opd2 \<and> e = AssertionError) \<and>
   (case KroneckerParameter opd1 opd2 of
      Inr p \<Rightarrow> length (shape opd1) = length (shape opd2) \<and>
               shape p = map2 (*) (shape opd1) (shape opd2)
    | Inl e \<Rightarrow> length (shape opd1) \<noteq> length (shape opd2) \<and> e = AssertionError) \<and>
   (case OuterProductParameter opd1 opd2 axis of
      Inr p \<Rightarrow>
        valid_axis axis (length (shape opd1)) \<and>
        equal_except (the_axis axis (length (shape opd1))) (shape opd1) (shape opd2) \<and>
        shape p = (shape opd1)[the_axis axis (length (shape opd1)) :=
                     shape opd1 ! the_axis axis (length (shape opd1)) *
                     shape opd2 ! the_axis axis (length (shape opd1))]
    | Inl e \<Rightarrow>
        \<not> (valid_axis axis (length (shape opd1)) \<and>
           equal_except (the_axis axis (length (shape opd1))) (shape opd1) (shape opd2)) \<and>
        e = AssertionError) \<and>
   (case ReduceOpParameter k opd1 axis of
      Inr p \<Rightarrow>
        valid_axis axis (length (shape opd1)) \<and>
        length (shape p) + 1 = length (shape opd1) \<and>
        list_all (\<lambda>i. shape p ! i =
                    shape opd1 ! (if i < the_axis axis (length (shape opd1)) then i else i + 1))
          [0..<length (shape p)]
    | Inl e \<Rightarrow> \<not> valid_axis axis (length (shape opd1)) \<and> e = AssertionError)"
  by (intro conjI hadamard_law kronecker_law outer_product_law reduce_law)

text \<open>
  The laws at the shapes \<open>(2, 3)\<close> and \<open>(2, 5)\<close> with the last axis: the Hadamard
  and outer product constructors of the theorem succeed or fail as the shapes say, and
  the reduction over the last axis of \<open>(2, 3)\<close> has the shape \<open>(2)\<close>.
\<close>

theorem parameter_shape_laws_witness:
  "HadamardParameter (Parameter [2, 3]) (Parameter [2, 5]) = Inl AssertionError \<and>
   map_sum id shape (KroneckerParameter (Parameter [2, 3]) (Parameter [2, 5])) = Inr [4, 15] \<and>
   map_sum id shape (OuterProductParameter (Parameter [2, 3]) (Parameter [2, 5]) (- 1))
     = Inr [2, 15] \<and>
   map_sum id shape (ReduceOpParameter ReduceSum (Parameter [2, 3]) (- 1)) = Inr [2]"
proof -
  let ?a = "Parameter [2, 3]" and ?b = "Parameter [2, 5]"
  note law = parameter_shape_laws [where ?opd1.0 = ?a and ?opd2.0 = ?b and axis = "- 1"
      and k = ReduceSum]
  have 1: "HadamardParameter ?a ?b = Inl AssertionError"
  proof (cases "HadamardParameter ?a ?b")
    case (Inl e)
    with law show ?thesis by simp
  next
    case (Inr p)
    with law have "shape ?a = shape ?b" by simp
    then show ?thesis by simp
  qed
  have 2: "map_sum id shape (KroneckerParameter ?a ?b) = Inr [4, 15]"
    by code_simp
  have 3: "map_sum id shape (OuterProductParameter ?a ?b (- 1)) = Inr [2, 15]"
    by code_simp
  have 4: "map_sum id shape (ReduceOpParameter ReduceSum ?a (- 1)) = Inr [2]"
    by code_simp
  from 1 2 3 4 show ?thesis by (intro conjI)
qed

text \<open>
  The claim as stated names \<open>ShapeError\<close>: the shapes \<open>(2)\<close> and \<open>(3)\<close> violate the
  contract of the Hadamard node, and the constructor raises \<open>AssertionError\<close>.
\<close>

theorem parameter_shape_counterexample:
  "shape (Parameter [2]) \<noteq> shape (Parameter [3]) \<and>
   HadamardParameter (Parameter [2]) (Parameter [3]) = Inl AssertionError \<and>
   HadamardParameter (Parameter [2]) (Parameter [3]) \<noteq> Inl ShapeError"
  by (simp add: HadamardParameter_def)

section \<open>The categorical layer\<close>

lemma CategoricalLayer_both_given:
  "logits_arg \<noteq> None \<and> probs_arg \<noteq> None \<or> logits_factory \<noteq> None \<and> probs_factory \<noteq> None
     \<Longrightarrow> CategoricalLayer oid scp n_out n_channels n_categories logits_arg probs_arg
           logits_factory probs_factory = Inl ValueError"
  by (auto simp: CategoricalLayer_def split: option.splits)

lemma CategoricalLayer_default:
  assumes "card scp = 1" "2 \<le> n_categories"
  shows "\<exists>self. CategoricalLayer oid scp n_out n_channels n_categories None None None None
                  = Inr self \<and>
          logits self =
            Some (TensorParameter [n_out, n_channels, n_categories] NormalInitializer) \<and>
          probs self = None"
  using assms
  by (simp add: CategoricalLayer_def Let_def probs_logits_shape_def InputLayer_init_def
      Layer_init_def num_channels_def from_leaf_def)

lemma CategoricalLayer_one_of:
  assumes "CategoricalLayer oid scp n_out n_channels n_categories logits_arg probs_arg
             logits_factory probs_factory = Inr self"
  shows "(\<exists>p. logits self = Some p \<and> probs self = None \<and>
               shape p = [n_out, n_channels, n_categories]) \<or>
         (\<exists>p. probs self = Some p \<and> logits self = None \<and>
               shape p = [n_out, n_channels, n_categories])"
  using assms
  by (auto simp: CategoricalLayer_def Let_def probs_logits_shape_def InputLayer_init_def
      Layer_init_def num_channels_def from_leaf_def split: if_splits option.splits)

text \<open>
  Claim C10 (as amended).  The constructor raises \<open>ValueError\<close> when both \<open>logits\<close>
  and \<open>probs\<close> are given, and when both factories are given.  When neither parameter
  and no factory is given, and the scope and the number of categories pass their
  guards, the layer gets a default \<open>logits\<close> tensor parameter of the shape
  \<open>(num_output_units, num_channels, num_categories)\<close>.  For every layer the constructor
  returns, \<open>params\<close> has exactly one entry, named \<open>logits\<close> or \<open>probs\<close>, and the
  parameter it holds has that shape.
\<close>

theorem CategoricalLayer_logits_or_probs:
  "(logits_arg \<noteq> None \<and> probs_arg \<noteq> None \<or> logits_factory \<noteq> None \<and> probs_factory \<noteq> None
      \<longrightarrow> CategoricalLayer oid scp n_out n_channels n_categories logits_arg probs_arg
            logits_factory probs_factory = Inl ValueError) \<and>
   (card scp = 1 \<and> 2 \<le> n_categories
      \<longrightarrow> (\<exists>self. CategoricalLayer oid scp n_out n_channels n_categories None None None None
                    = Inr self \<and>
                  CategoricalLayer_params self =
                    [(''logits'', Some (TensorParameter [n_out, n_channels, n_categories]
                                          NormalInitializer))])) \<and>
   (CategoricalLayer oid scp n_out n_channels n_categories logits_arg probs_arg
        logits_factory probs_factory = Inr self
      \<longrightarrow> (\<exists>p. shape p = [n_out, n_channels, n_categories] \<and>
               (CategoricalLayer_params self = [(''logits'', Some p)] \<or>
                CategoricalLayer_params self = [(''probs'', Some p)])))"
proof (intro conjI impI)
  assume "logits_arg \<noteq> None \<and> probs_arg \<noteq> None \<or>
          logits_factory \<noteq> None \<and> probs_factory \<noteq> None"
  then show "CategoricalLayer oid scp n_out n_channels n_categories logits_arg probs_arg
               logits_factory probs_factory = Inl ValueError"
    by (rule CategoricalLayer_both_given)
next
  assume "card scp = 1 \<and> 2 \<le> n_categories"
  then show "\<exists>self. CategoricalLayer oid scp n_out n_channels n_categories None None None None
                      = Inr self \<and>
               CategoricalLayer_params self =
                 [(''logits'', Some (TensorParameter [n_out, n_channels, n_categories]
                                       NormalInitializer))]"
    using CategoricalLayer_default [of scp n_categories oid n_out n_channels]
    by (auto simp: CategoricalLayer_params_def)
next
  assume "CategoricalLayer oid scp n_out n_channels n_categories logits_arg probs_arg
            logits_factory probs_factory = Inr self"
  from CategoricalLayer_one_of [OF this]
  show "\<exists>p. shape p = [n_out, n_channels, n_categories] \<and>
            (CategoricalLayer_params self = [(''logits'', Some p)] \<or>
             CategoricalLayer_params self = [(''probs'', Some p)])"
    by (auto simp: CategoricalLayer_params_def)
qed

text \<open>
  Over the variable 0, with 2 units, 1 channel and 2 categories: both parameters given
  is an error; nothing given creates the default \<open>logits\<close>; \<open>probs\<close> given makes
  \<open>cat2\<close>, whose \<open>params\<close> holds \<open>probs\<close> alone.
\<close>

theorem CategoricalLayer_logits_or_probs_witness:
  "CategoricalLayer 0 {0} 2 1 2 (Some (Parameter [2, 1, 2])) (Some (Parameter [2, 1, 2]))
     None None = Inl ValueError \<and>
   (\<exists>self. CategoricalLayer 0 {0} 2 1 2 None None None None = Inr self \<and>
           CategoricalLayer_params self =
             [(''logits'', Some (TensorParameter [2, 1, 2] NormalInitializer))]) \<and>
   CategoricalLayer 0 {0} 2 1 2 None (Some (Parameter [2, 1, 2])) None None = Inr cat2 \<and>
   (\<exists>p. shape p = [2, 1, 2] \<and>
        (CategoricalLayer_params cat2 = [(''logits'', Some p)] \<or>
         CategoricalLayer_params cat2 = [(''probs'', Some p)]))"
proof -
  have c: "CategoricalLayer 0 {0} 2 1 2 None (Some (Parameter [2, 1, 2])) None None = Inr cat2"
    by code_simp
  have g: "card {0::nat} = 1 \<and> (2::int) \<le> 2" by simp
  note law1 = CategoricalLayer_logits_or_probs
      [where logits_arg = "Some (Parameter [2, 1, 2])"
         and probs_arg = "Some (Parameter [2, 1, 2])"
         and logits_factory = None and probs_factory = None and oid = 0 and scp = "{0}"
         and n_out = 2 and n_channels = 1 and n_categories = 2]
  note law2 = CategoricalLayer_logits_or_probs
      [where logits_arg = None and probs_arg = "Some (Parameter [2, 1, 2])"
         and logits_factory = None and probs_factory = None and oid = 0 and scp = "{0}"
         and n_out = 2 and n_channels = 1 and n_categories = 2 and self = cat2]
  from law1 have 1: "CategoricalLayer 0 {0} 2 1 2 (Some (Parameter [2, 1, 2]))
     (Some (Parameter [2, 1, 2])) None None = Inl ValueError"
    by simp
  from law2 g have 2: "\<exists>self. CategoricalLayer 0 {0} 2 1 2 None None None None = Inr self \<and>
           CategoricalLayer_params self =
             [(''logits'', Some (TensorParameter [2, 1, 2] NormalInitializer))]"
    by blast
  from law2 c have 3: "\<exists>p. shape p = [2, 1, 2] \<and>
        (CategoricalLayer_params cat2 = [(''logits'', Some p)] \<or>
         CategoricalLayer_params cat2 = [(''probs'', Some p)])"
    by blast
  from 1 2 c 3 show ?thesis by (intro conjI)
qed

text \<open>
  The claim as stated creates the default \<open>logits\<close> whenever neither parameter is
  given.  With neither parameter and a factory for \<open>probs\<close>, the constructor returns
  \<open>cat2\<close>: the layer has no \<open>logits\<close>, and \<open>params\<close> holds the \<open>probs\<close> the
  factory made.
\<close>

theorem CategoricalLayer_logits_or_probs_counterexample:
  "CategoricalLayer 0 {0} 2 1 2 None None None (Some Parameter) = Inr cat2 \<and>
   logits cat2 = None \<and>
   CategoricalLayer_params cat2 = [(''probs'', Some (Parameter [2, 1, 2]))]"
  by code_simp

section \<open>Multiplication rules\<close>

lemma shape_Kronecker2:
  "shape opd1 = [a, b] \<Longrightarrow> shape opd2 = [c, d] \<Longrightarrow> shape (Kronecker opd1 opd2) = [a * c, b * d]"
  by (simp add: upt_rec)

lemma DenseLayer_Inr:
  assumes "DenseLayer oid scp n_in n_out weight_arg weight_factory = Inr self"
  shows "\<exists>w. weight self = Some w \<and> shape w = [n_out, n_in] \<and> ident self = oid \<and>
             num_input_units self = n_in \<and> num_output_units self = n_out \<and>
             scope self = scp \<and> arity self = 1"
  using assms
  by (auto simp: DenseLayer_def Let_def Layer_init_def split: if_splits)

lemma MixingLayer_Inr:
  assumes "MixingLayer oid scp n ar weight_arg weight_factory = Inr self"
  shows "\<exists>w. weight self = Some w \<and> shape w = [n, ar] \<and> ident self = oid \<and>
             num_input_units self = n \<and> num_output_units self = n \<and>
             scope self = scp \<and> arity self = ar"
  using assms
  by (auto simp: MixingLayer_def Let_def Layer_init_def split: if_splits)

lemma HadamardLayer_Inr:
  assumes "HadamardLayer oid scp n ar = Inr self"
  shows "2 \<le> ar \<and> ident self = oid \<and> num_input_units self = n \<and>
         num_output_units self = n \<and> scope self = scp \<and> arity self = ar"
  using assms
  by (auto simp: HadamardLayer_def Layer_init_def split: if_splits)

text \<open>
  The product of two Hadamard layers, of two dense layers and of two mixing layers
  (each operand as its constructor returns it) has as many output units as the product
  of the operands' output units; the dense and the mixing product have the Kronecker
  node of the two placeholders as weight, and the mixing product has the product of
  the arities.
\<close>

lemma multiply_hadamard_layers_units:
  assumes "HadamardLayer i1 s1 n1 a1 = Inr lhs" "HadamardLayer i2 s2 n2 a2 = Inr rhs"
  shows "\<exists>sl. multiply_hadamard_layers oid lhs rhs = Inr sl \<and>
           num_output_units sl = num_output_units lhs * num_output_units rhs \<and>
           arity sl = max (arity lhs) (arity rhs)"
  using HadamardLayer_Inr [OF assms(1)] HadamardLayer_Inr [OF assms(2)]
  by (simp add: multiply_hadamard_layers_def HadamardLayer_def Layer_init_def)

lemma multiply_dense_layers_units:
  assumes "DenseLayer i1 s1 n1 m1 w1 f1 = Inr lhs" "DenseLayer i2 s2 n2 m2 w2 f2 = Inr rhs"
  shows "\<exists>sl. multiply_dense_layers oid lhs rhs = Inr sl \<and>
           num_output_units sl = num_output_units lhs * num_output_units rhs \<and>
           weight sl = Some (Kronecker (Placeholder (ident lhs) ''weight'' [m1, n1])
                                       (Placeholder (ident rhs) ''weight'' [m2, n2]))"
proof -
  from DenseLayer_Inr [OF assms(1)] obtain wl where
    l: "weight lhs = Some wl" "shape wl = [m1, n1]" "num_input_units lhs = n1"
       "num_output_units lhs = m1"
    by blast
  from DenseLayer_Inr [OF assms(2)] obtain wr where
    r: "weight rhs = Some wr" "shape wr = [m2, n2]" "num_input_units rhs = n2"
       "num_output_units rhs = m2"
    by blast
  show ?thesis
    using l r
    by (simp add: multiply_dense_layers_def and_then_def PlaceholderParameter_def getattr_def
        KroneckerParameter_def DenseLayer_def Let_def Layer_init_def weight_or_default_def
        shape_Kronecker2 del: shape.simps(6))
qed

lemma multiply_mixing_layers_units:
  assumes "MixingLayer i1 s1 n1 a1 w1 f1 = Inr lhs" "MixingLayer i2 s2 n2 a2 w2 f2 = Inr rhs"
  shows "\<exists>sl. multiply_mixing_layers oid lhs rhs = Inr sl \<and>
           num_output_units sl = num_output_units lhs * num_output_units rhs \<and>
           arity sl = arity lhs * arity rhs \<and>
           weight sl = Some (Kronecker (Placeholder (ident lhs) ''weight'' [n1, a1])
                                       (Placeholder (ident rhs) ''weight'' [n2, a2]))"
proof -
  from MixingLayer_Inr [OF assms(1)] obtain wl where
    l: "weight lhs = Some wl" "shape wl = [n1, a1]" "num_input_units lhs = n1"
       "num_output_units lhs = n1" "arity lhs = a1"
    by blast
  from MixingLayer_Inr [OF assms(2)] obtain wr where
    r: "weight rhs = Some wr" "shape wr = [n2, a2]" "num_input_units rhs = n2"
       "num_output_units rhs = n2" "arity rhs = a2"
    by blast
  show ?thesis
    using l r
    by (simp add: multiply_mixing_layers_def and_then_def PlaceholderParameter_def getattr_def
        KroneckerParameter_def MixingLayer_def Let_def Layer_init_def weight_or_default_def
        shape_Kronecker2 del: shape.simps(6))
qed

text \<open>
  The product of two categorical layers is never built: when the channels agree and
  both operands have \<open>probs\<close>, the call of \<^verbatim>\<open>KroneckerParameter\<close> with the keyword
  \<^verbatim>\<open>axis\<close> raises \<open>TypeError\<close>.
\<close>

lemma multiply_categorical_layers_raises:
  "isl (multiply_categorical_layers oid lhs rhs)"
  by (simp add: multiply_categorical_layers_def and_then_def call_KroneckerParameter_def
      split: sum.splits)

text \<open>
  Claim C2 (evaluated at the failing input).  \<open>cat2\<close> and \<open>cat3\<close> are the categorical
  layers the constructor returns for 2 and for 3 output units over the variable 0.
  Their product raises \<open>TypeError\<close>, so there is no resulting layer.  The number of
  output units the rule computes for it, \<^verbatim>\<open>lhs.num_output_units * rhs.num_input_units\<close>,
  is 2; the product of the operands' output units is 6.
\<close>

theorem multiply_categorical_layers_cat2_cat3:
  "CategoricalLayer 0 {0} 2 1 2 None (Some (Parameter [2, 1, 2])) None None = Inr cat2 \<and>
   CategoricalLayer 1 {0} 3 1 2 None (Some (Parameter [3, 1, 2])) None None = Inr cat3 \<and>
   multiply_categorical_layers 2 cat2 cat3 = Inl TypeError \<and>
   num_output_units cat2 * num_input_units cat3 = 2 \<and>
   num_output_units cat2 * num_output_units cat3 = 6"
  by code_simp

section \<open>Sharing of compiled parameters\<close>

text \<open>
  No data type reaches the final \<^verbatim>\<open>raise\<close> of \<^verbatim>\<open>_retrieve_dtype\<close>.  A parameter the
  state holds compiles to a pointer and leaves the compiler as it is; a parameter the
  state does not hold is materialized and registered.  Neither changes what the state
  holds for another parameter.
\<close>

lemma retrieve_dtype_Inr: "\<exists>d. retrieve_dtype compiler dtype = Inr d"
  by (cases dtype) (simp_all add: retrieve_dtype_def Let_def)

lemma compile_parameter_hit:
  assumes "map_of (state compiler) p = Some (t, f)"
  shows "compile_parameter compiler p = Inr (TorchPointerParameter t f, compiler)"
  using assms
  by (cases p)
     (simp_all add: compile_tensor_parameter_def compile_constant_parameter_def
        has_compiled_parameter_def retrieve_compiled_parameter_def)

lemma compile_parameter_miss:
  assumes "map_of (state compiler) p = None"
  shows "\<exists>t. compile_parameter compiler p =
           Inr (TensorNode t,
                compiler\<lparr>tensors := tensors compiler @ [(p, t)],
                         state := AList.update p (t, new_fold_idx compiler) (state compiler)\<rparr>)
           \<and> t_ident t = length (tensors compiler)"
proof (cases p)
  case (TensorP tp)
  obtain d where "retrieve_dtype compiler (tp_dtype tp) = Inr d"
    using retrieve_dtype_Inr [of compiler "tp_dtype tp"] by auto
  with assms TensorP show ?thesis
    by (simp add: compile_tensor_parameter_def has_compiled_parameter_def Let_def
        register_compiled_parameter_def)
next
  case (ConstantP cp)
  with assms show ?thesis
    by (simp add: compile_constant_parameter_def has_compiled_parameter_def Let_def
        register_compiled_parameter_def)
qed

lemma compile_parameter_keeps:
  assumes "map_of (state compiler) p = Some v"
  shows "\<exists>r compiler'. compile_parameter compiler q = Inr (r, compiler') \<and>
           map_of (state compiler') p = Some v \<and>
           materializations compiler' p = materializations compiler p"
proof (cases "map_of (state compiler) q")
  case None
  with assms have "q \<noteq> p" by auto
  with assms compile_parameter_miss [OF None] show ?thesis
    by (auto simp: materializations_def update_conv')
next
  case (Some w)
  then obtain t f where "map_of (state compiler) q = Some (t, f)" by (cases w) auto
  from compile_parameter_hit [OF this] assms show ?thesis by simp
qed

lemma compile_parameters_keeps:
  assumes "map_of (state compiler) p = Some (t, f)"
  shows "\<exists>rs compiler'. compile_parameters compiler qs = Inr (rs, compiler') \<and>
           length rs = length qs \<and>
           list_all (\<lambda>(q, r). q \<noteq> p \<or> r = TorchPointerParameter t f) (zip qs rs) \<and>
           map_of (state compiler') p = Some (t, f) \<and>
           materializations compiler' p = materializations compiler p"
  using assms
proof (induction qs arbitrary: compiler)
  case Nil
  then show ?case by simp
next
  case (Cons q qs)
  from compile_parameter_keeps [OF Cons.prems, of q] obtain r c1 where
    1: "compile_parameter compiler q = Inr (r, c1)" "map_of (state c1) p = Some (t, f)"
       "materializations c1 p = materializations compiler p"
    by blast
  from Cons.IH [OF 1(2)] obtain rs c2 where
    2: "compile_parameters c1 qs = Inr (rs, c2)" "length rs = length qs"
       "list_all (\<lambda>(q, r). q \<noteq> p \<or> r = TorchPointerParameter t f) (zip qs rs)"
       "map_of (state c2) p = Some (t, f)"
       "materializations c2 p = materializations c1 p"
    by blast
  have "q = p \<Longrightarrow> r = TorchPointerParameter t f"
    using compile_parameter_hit [OF Cons.prems] 1(1) by simp
  with 1 2 show ?case by auto
qed


text \<open>
  Claim C1.  Let the state of a compiler hold nothing for the symbolic leaf \<open>p\<close>.
  Compiling \<open>p\<close> builds a new materialization \<open>t\<close> and registers it for \<open>p\<close> with the
  fold index of a new registration.  After any further requests \<open>qs\<close> made through the
  compiler (for \<open>p\<close> or any other leaf), every request for \<open>p\<close> among them has returned
  the pointer to \<open>t\<close> with that fold index, one more request for \<open>p\<close> returns the same
  pointer and leaves the compiler unchanged, and exactly one materialization has been
  built for \<open>p\<close> since the start.
\<close>

theorem compile_parameter_once:
  assumes "\<not> has_compiled_parameter (state compiler) p"
  shows "\<exists>t c1. compile_parameter compiler p = Inr (TensorNode t, c1) \<and>
           t_ident t = length (tensors compiler) \<and>
           retrieve_compiled_parameter (state c1) p = Inr (t, new_fold_idx compiler) \<and>
           materializations c1 p = materializations compiler p + 1 \<and>
           (\<forall>qs. \<exists>rs c2. compile_parameters c1 qs = Inr (rs, c2) \<and>
              length rs = length qs \<and>
              list_all (\<lambda>(q, r). q \<noteq> p \<or> r = TorchPointerParameter t (new_fold_idx compiler))
                (zip qs rs) \<and>
              compile_parameter c2 p
                = Inr (TorchPointerParameter t (new_fold_idx compiler), c2) \<and>
              materializations c2 p = materializations compiler p + 1)"
proof -
  from assms have none: "map_of (state compiler) p = None"
    unfolding has_compiled_parameter_def by blast
  from compile_parameter_miss [OF none] obtain t where
    t: "compile_parameter compiler p =
          Inr (TensorNode t,
               compiler\<lparr>tensors := tensors compiler @ [(p, t)],
                        state := AList.update p (t, new_fold_idx compiler) (state compiler)\<rparr>)"
       "t_ident t = length (tensors compiler)"
    by blast
  define c1 where
    "c1 = compiler\<lparr>tensors := tensors compiler @ [(p, t)],
                   state := AList.update p (t, new_fold_idx compiler) (state compiler)\<rparr>"
  have reg: "map_of (state c1) p = Some (t, new_fold_idx compiler)"
    by (simp add: c1_def update_conv')
  have m1: "materializations c1 p = materializations compiler p + 1"
    by (simp add: c1_def materializations_def)
  have later: "\<exists>rs c2. compile_parameters c1 qs = Inr (rs, c2) \<and>
              length rs = length qs \<and>
              list_all (\<lambda>(q, r). q \<noteq> p \<or> r = TorchPointerParameter t (new_fold_idx compiler))
                (zip qs rs) \<and>
              compile_parameter c2 p
                = Inr (TorchPointerParameter t (new_fold_idx compiler), c2) \<and>
              materializations c2 p = materializations compiler p + 1" for qs
  proof -
    from compile_parameters_keeps [OF reg, of qs] obtain rs c2 where
      k: "compile_parameters c1 qs = Inr (rs, c2)" "length rs = length qs"
         "list_all (\<lambda>(q, r). q \<noteq> p \<or> r = TorchPointerParameter t (new_fold_idx compiler))
            (zip qs rs)"
         "map_of (state c2) p = Some (t, new_fold_idx compiler)"
         "materializations c2 p = materializations c1 p"
      by blast
    from compile_parameter_hit [OF k(4)] k m1 show ?thesis by simp
  qed
  from t reg m1 later show ?thesis
    unfolding c1_def [symmetric]
    by (intro exI [of _ t] exI [of _ c1]) (simp add: retrieve_compiled_parameter_def)
qed

text \<open>
  Through \<open>compiler0\<close>, whose state is empty: the tensor parameter \<open>leaf_w\<close> is
  materialized once; after the constant \<open>leaf_c\<close> has been compiled, a second request
  for \<open>leaf_w\<close> returns the pointer to that materialization with fold index 0.
\<close>

theorem compile_parameter_once_witness:
  "\<not> has_compiled_parameter (state compiler0) leaf_w \<and>
   (\<exists>t c1 rs c2. compile_parameter compiler0 leaf_w = Inr (TensorNode t, c1) \<and>
      compile_parameters c1 [leaf_c, leaf_w] = Inr (rs, c2) \<and>
      rs ! 1 = TorchPointerParameter t 0 \<and>
      materializations c2 leaf_w = 1) \<and>
   map_sum id fst (compile_parameter compiler0 leaf_w) = Inr (TensorNode tensor_w)"
proof -
  have h: "\<not> has_compiled_parameter (state compiler0) leaf_w"
    by (simp add: has_compiled_parameter_def compiler0_def)
  have m0: "materializations compiler0 leaf_w = 0" "new_fold_idx compiler0 = 0"
    by (simp_all add: materializations_def compiler0_def)
  from compile_parameter_once [OF h] obtain t c1 where
    1: "compile_parameter compiler0 leaf_w = Inr (TensorNode t, c1)"
    and 2: "\<And>qs. \<exists>rs c2. compile_parameters c1 qs = Inr (rs, c2) \<and> length rs = length qs \<and>
              list_all (\<lambda>(q, r). q \<noteq> leaf_w \<or>
                          r = TorchPointerParameter t (new_fold_idx compiler0)) (zip qs rs) \<and>
              compile_parameter c2 leaf_w
                = Inr (TorchPointerParameter t (new_fold_idx compiler0), c2) \<and>
              materializations c2 leaf_w = materializations compiler0 leaf_w + 1"
    by blast
  from 2 [of "[leaf_c, leaf_w]"] obtain rs c2 where
    3: "compile_parameters c1 [leaf_c, leaf_w] = Inr (rs, c2)" "length rs = 2"
       "list_all (\<lambda>(q, r). q \<noteq> leaf_w \<or>
                   r = TorchPointerParameter t (new_fold_idx compiler0))
          (zip [leaf_c, leaf_w] rs)"
       "materializations c2 leaf_w = materializations compiler0 leaf_w + 1"
    by auto
  from 3(2) obtain r0 r1 where rs: "rs = [r0, r1]"
    by (cases rs; cases "tl rs") auto
  with 3(3) m0 have 4: "rs ! 1 = TorchPointerParameter t 0" by simp
  have 5: "map_sum id fst (compile_parameter compiler0 leaf_w) = Inr (TensorNode tensor_w)"
    by code_simp
  from h 1 3(1) 4 3(4) m0 5 show ?thesis by auto
qed

end
